theory Spec2Isabelle
  imports Complex_Main
begin

section \<open>Python errors\<close>

text \<open>
  Every exception the modelled code can raise is a value. \<open>Exception\<close> carries the
  message of a plain \<^verbatim>\<open>raise Exception(msg)\<close>; \<open>ConfigurationError\<close> is the error the
  specification gives to the collaborators that are not part of the sources;
  \<open>CollaboratorError\<close> is any failure of an external library call (a download that
  fails, a \<^verbatim>\<open>ValueError\<close> of scikit-learn).
\<close>

datatype error =
    AssertionError
  | Exception string
  | TypeError
  | AttributeError
  | UnboundLocalError
  | ZeroDivisionError
  | ValueError
  | ConfigurationError
  | CollaboratorError string

section \<open>The predictive distillation wrapper (kaizen/distillers/predictive.py)\<close>

text \<open>
  The hyperparameters \<^verbatim>\<open>self.lr\<close>, \<^verbatim>\<open>self.weight_decay\<close> and
  \<^verbatim>\<open>self.distill_lamb\<close> are Python floats parsed from the command line; they are
  real numbers here, and Python's float division by zero raises, as
  \<^verbatim>\<open>self.lr / self.distill_lamb\<close> does.

  The losses are zero-dimensional float tensors. Tensor arithmetic never raises: it
  yields an infinity or \<^verbatim>\<open>nan\<close>, and a \<^verbatim>\<open>nan\<close> operand makes the result \<^verbatim>\<open>nan\<close>. A
  loss is therefore a \<open>scalar\<close>: a finite real number, one of the two infinities or
  \<^verbatim>\<open>nan\<close>, with the IEEE rules for the non-finite values (\<open>0 * inf\<close> and
  \<open>inf - inf\<close> are \<^verbatim>\<open>nan\<close>). Rounding, overflow of finite operands and the sign of
  zero are not modelled.

  The object \<^verbatim>\<open>self\<close> is a record. The parent class
  (\<^verbatim>\<open>base_distill_wrapper(Method)\<close>), the predictor network and
  \<^verbatim>\<open>byol_loss_func\<close> are not part of the sources: what the wrapper reads from them
  is a field of the record (\<open>super_learnable_params\<close>, \<open>super_training_step\<close>,
  \<open>distill_predictor\<close>, \<open>byol_loss_func\<close>).
\<close>

datatype scalar = Finite real | PosInf | NegInf | NaN

fun fadd :: "scalar \<Rightarrow> scalar \<Rightarrow> scalar" where
  "fadd NaN y = NaN"
| "fadd x NaN = NaN"
| "fadd PosInf NegInf = NaN"
| "fadd NegInf PosInf = NaN"
| "fadd PosInf y = PosInf"
| "fadd x PosInf = PosInf"
| "fadd NegInf y = NegInf"
| "fadd x NegInf = NegInf"
| "fadd (Finite a) (Finite b) = Finite (a + b)"

text \<open>The product of an infinity with a finite number takes the sign of the product.\<close>

definition signed_inf :: "real \<Rightarrow> scalar" where
  "signed_inf a = (if a = 0 then NaN else if 0 < a then PosInf else NegInf)"

fun fmul :: "scalar \<Rightarrow> scalar \<Rightarrow> scalar" where
  "fmul NaN y = NaN"
| "fmul x NaN = NaN"
| "fmul (Finite a) (Finite b) = Finite (a * b)"
| "fmul (Finite a) PosInf = signed_inf a"
| "fmul (Finite a) NegInf = signed_inf (- a)"
| "fmul PosInf (Finite b) = signed_inf b"
| "fmul NegInf (Finite b) = signed_inf (- b)"
| "fmul PosInf PosInf = PosInf"
| "fmul NegInf NegInf = PosInf"
| "fmul PosInf NegInf = NegInf"
| "fmul NegInf PosInf = NegInf"

text \<open>A tensor divided by a Python number.\<close>

fun fdiv :: "scalar \<Rightarrow> real \<Rightarrow> scalar" where
  "fdiv NaN c = NaN"
| "fdiv (Finite a) c = (if c = 0 then signed_inf a else Finite (a / c))"
| "fdiv PosInf c = (if 0 \<le> c then PosInf else NegInf)"
| "fdiv NegInf c = (if 0 \<le> c then NegInf else PosInf)"

record 'p param_group =
  pg_name :: string
  pg_params :: 'p
  pg_lr :: "real option"
  pg_weight_decay :: "real option"

text \<open>The dictionary returned by the parent's \<^verbatim>\<open>training_step\<close>.\<close>

record 'e step_out =
  out_z :: "'e \<times> 'e"
  out_frozen_z :: "'e \<times> 'e"
  out_loss :: scalar

record ('e, 'p, 'b) wrapper =
  self_distill_lamb :: real
  self_lr :: real
  self_weight_decay :: real
  distill_predictor :: "'e \<Rightarrow> 'e"
  distill_predictor_parameters :: 'p
  byol_loss_func :: "'e \<Rightarrow> 'e \<Rightarrow> scalar"
  super_learnable_params :: "'p param_group list"
  super_training_step :: "'b \<Rightarrow> int \<Rightarrow> 'e step_out"

text \<open>Python's \<^verbatim>\<open>a / b\<close> on floats.\<close>

definition py_truediv :: "real \<Rightarrow> real \<Rightarrow> error + real" where
  "py_truediv a b = (if b = 0 then Inl ZeroDivisionError else Inr (a / b))"

text \<open>
  The value of the key \<^verbatim>\<open>"lr"\<close>:
  \<^verbatim>\<open>self.lr if self.distill_lamb >= 1 else self.lr / self.distill_lamb\<close>.
\<close>

definition predictor_lr :: "('e, 'p, 'b) wrapper \<Rightarrow> error + real" where
  "predictor_lr self =
     (if self_distill_lamb self \<ge> 1 then Inr (self_lr self)
      else py_truediv (self_lr self) (self_distill_lamb self))"

text \<open>
  The property \<^verbatim>\<open>learnable_params\<close>: the list \<^verbatim>\<open>extra_learnable_params\<close> is built
  first, then appended to the parent's list.
\<close>

definition learnable_params :: "('e, 'p, 'b) wrapper \<Rightarrow> error + 'p param_group list" where
  "learnable_params self =
     (case predictor_lr self of
        Inl e \<Rightarrow> Inl e
      | Inr r \<Rightarrow>
          Inr (super_learnable_params self @
               [\<lparr> pg_name = ''distill_predictor'',
                  pg_params = distill_predictor_parameters self,
                  pg_lr = Some r,
                  pg_weight_decay = Some (self_weight_decay self) \<rparr>]))"

text \<open>
  \<^verbatim>\<open>training_step\<close> returns the loss handed to the optimizer; the call of
  \<^verbatim>\<open>self.log\<close> is the first component of the result (name and logged value).
\<close>

definition distill_loss :: "('e, 'p, 'b) wrapper \<Rightarrow> 'e step_out \<Rightarrow> scalar" where
  "distill_loss self out =
     (let (z1, z2) = out_z out;
          (frozen_z1, frozen_z2) = out_frozen_z out;
          p1 = distill_predictor self z1;
          p2 = distill_predictor self z2
      in fdiv (fadd (byol_loss_func self p1 frozen_z1) (byol_loss_func self p2 frozen_z2)) 2)"

definition training_step ::
  "('e, 'p, 'b) wrapper \<Rightarrow> 'b \<Rightarrow> int \<Rightarrow> (string \<times> scalar) list \<times> scalar" where
  "training_step self batch batch_idx =
     (let out = super_training_step self batch batch_idx;
          dl = distill_loss self out
      in ([(''train_predictive_distill_loss'', dl)],
          fadd (out_loss out) (fmul (Finite (self_distill_lamb self)) dl)))"

section \<open>Datasets and loaders (torch.utils.data)\<close>

text \<open>
  A dataset object is an ordered, indexable collection. \<open>Data xs t\<close> is an object
  supplied by a collaborator (a torchvision dataset, what the task partitioner
  returns): its items in order and its attribute \<^verbatim>\<open>targets\<close> when it has one.
  \<open>ConcatDataset\<close> and \<open>Subset\<close> are the two classes of
  \<^verbatim>\<open>torch.utils.data.dataset\<close> that \<^verbatim>\<open>prepare_data\<close> instantiates itself; both
  define \<^verbatim>\<open>__len__\<close> and \<^verbatim>\<open>__getitem__\<close> and neither has an attribute
  \<^verbatim>\<open>targets\<close>.
\<close>

datatype 'a dataset =
    Data "'a list" "int list option"
  | ConcatDataset "'a dataset list"
  | Subset "'a dataset" "int list"

fun len :: "'a dataset \<Rightarrow> nat" where
  "len (Data xs t) = length xs"
| "len (ConcatDataset ds) = sum_list (map len ds)"
| "len (Subset d idxs) = length idxs"

text \<open>Reading the attribute \<^verbatim>\<open>.targets\<close>.\<close>

fun targets :: "'a dataset \<Rightarrow> error + int list" where
  "targets (Data xs (Some t)) = Inr t"
| "targets (Data xs None) = Inl AttributeError"
| "targets (ConcatDataset ds) = Inl AttributeError"
| "targets (Subset d idxs) = Inl AttributeError"

record 'a DataLoader =
  dl_dataset :: "'a dataset"
  dl_batch_size :: int
  dl_shuffle :: bool
  dl_num_workers :: int
  dl_pin_memory :: bool
  dl_drop_last :: bool

section \<open>Transforms and dataset construction (kaizen/utils/classification_dataloader.py)\<close>

text \<open>
  The augmentation pipelines are opaque objects; only which pipeline a dataset name
  selects matters. \<open>pipelines\<close> is the dictionary of \<^verbatim>\<open>prepare_transforms\<close>.
\<close>

datatype pipeline = cifar_pipeline | stl_pipeline | imagenet_pipeline | custom_pipeline

datatype transform = T_train pipeline | T_val pipeline

definition pipelines :: "(string \<times> pipeline) list" where
  "pipelines =
     [(''cifar10'', cifar_pipeline),
      (''cifar100'', cifar_pipeline),
      (''stl10'', stl_pipeline),
      (''imagenet100'', imagenet_pipeline),
      (''imagenet'', imagenet_pipeline),
      (''domainnet'', imagenet_pipeline),
      (''custom'', custom_pipeline)]"

definition prepare_transforms :: "string \<Rightarrow> error + transform \<times> transform" where
  "prepare_transforms name =
     (case map_of pipelines name of
        None \<Rightarrow> Inl AssertionError
      | Some pipeline \<Rightarrow> Inr (T_train pipeline, T_val pipeline))"

text \<open>
  A path is its list of parts and whether it is anchored at the root; \<open>joinpath\<close> is
  \<^verbatim>\<open>pathlib\<close>'s \<^verbatim>\<open>/\<close>, where an anchored right operand replaces the left one.
\<close>

datatype path = Path bool "string list"

fun joinpath :: "path \<Rightarrow> path \<Rightarrow> path" where
  "joinpath (Path a ps) (Path b qs) = (if b then Path b qs else Path a (ps @ qs))"

text \<open>
  The dataset objects that \<^verbatim>\<open>prepare_datasets\<close> constructs are described by the
  constructor call: class and arguments. Constructing one reads the disk or the
  network; that is the collaborator \<open>construct\<close> of the environment below.
\<close>

datatype source =
    TorchvisionDataset string path bool bool transform
  | STL10 path string bool transform
  | ImageFolder path transform
  | DomainNetDataset path path "string option" string transform bool

section \<open>The arguments of \<^verbatim>\<open>prepare_data\<close> and its collaborators\<close>

text \<open>
  \<^verbatim>\<open>training_task_idx\<close> is untyped in the source and the configuration allows an
  integer or a list of integers; its default is \<^verbatim>\<open>None\<close>.
\<close>

datatype task_idx = NoneIdx | IntIdx int | ListIdx "int list"

text \<open>The keyword arguments of \<^verbatim>\<open>prepare_data\<close>, under their names in the source.\<close>

record config =
  dataset :: string
  data_dir :: "path option"
  train_dir :: "path option"
  val_dir :: "path option"
  batch_size :: int
  num_workers :: int
  train_domain :: "string option"
  semi_supervised :: "real option"
  training_data_source :: string
  training_num_tasks :: "int option"
  training_tasks :: "int list list option"
  training_task_idx :: task_idx
  training_split_strategy :: "string option"
  training_split_seed :: "int option"
  replay :: bool
  replay_proportion :: "real option"
  replay_memory_bank_size :: "int option"

text \<open>The defaults of the signature; only \<^verbatim>\<open>dataset\<close> is required.\<close>

definition default_config :: "string \<Rightarrow> config" where
  "default_config name =
     \<lparr> dataset = name, data_dir = None, train_dir = None, val_dir = None,
       batch_size = 64, num_workers = 4, train_domain = None, semi_supervised = None,
       training_data_source = ''all_tasks'', training_num_tasks = None,
       training_tasks = None, training_task_idx = NoneIdx,
       training_split_strategy = None, training_split_seed = None,
       replay = False, replay_proportion = Some 0, replay_memory_bank_size = None \<rparr>"

text \<open>
  The four keyword arguments that \<^verbatim>\<open>prepare_data\<close> hands unchanged to both
  \<^verbatim>\<open>split_dataset\<close> and \<^verbatim>\<open>split_dataset_subset\<close>.
\<close>

record split_kwargs =
  kw_tasks :: "int list list option"
  kw_num_tasks :: "int option"
  kw_split_strategy :: "string option"
  kw_split_seed :: "int option"

definition split_kwargs_of :: "config \<Rightarrow> split_kwargs" where
  "split_kwargs_of cfg =
     \<lparr> kw_tasks = training_tasks cfg,
       kw_num_tasks = training_num_tasks cfg,
       kw_split_strategy = training_split_strategy cfg,
       kw_split_seed = training_split_seed cfg \<rparr>"

text \<open>
  The collaborators. \<open>split_dataset\<close> and \<open>split_dataset_subset\<close> are the functions of
  \<^verbatim>\<open>kaizen.utils.pretrain_dataloader\<close>, which is not part of the sources:
  \<open>split_dataset d task_idx kw\<close> returns a pair whose first component
  \<^verbatim>\<open>prepare_data\<close> keeps, \<open>split_dataset_subset d replay_task_idxs kw proportion
  num_samples\<close> returns a dataset or \<^verbatim>\<open>None\<close>. \<open>construct\<close> builds a dataset object,
  \<open>sandbox_dir\<close> is the directory above the module's own. \<open>RandomState\<close> and
  \<open>stratified_split\<close> are scikit-learn's: the generator seeded with an integer, and
  the stratified shuffle split of \<open>n\<close> indices drawing from a generator, which returns
  the train and test indices and the generator's next state.
\<close>

text \<open>
  Modelled from the spec: \<open>split_dataset\<close> and \<open>split_dataset_subset\<close> have no hidden
  randomness beyond the declared seed (the Task Assignment and the Split Seed of the
  data model), so each is a function of the arguments that \<^verbatim>\<open>prepare_data\<close> passes,
  the seed among them, and neither reads the process-global generator.
\<close>

record ('a, 'g) env =
  sandbox_dir :: path
  construct :: "source \<Rightarrow> error + 'a dataset"
  split_dataset ::
    "'a dataset \<Rightarrow> task_idx \<Rightarrow> split_kwargs \<Rightarrow> error + 'a dataset \<times> 'a dataset"
  split_dataset_subset ::
    "'a dataset \<Rightarrow> int list \<Rightarrow> split_kwargs \<Rightarrow> real option \<Rightarrow> int option
       \<Rightarrow> error + 'a dataset option"
  RandomState :: "int \<Rightarrow> 'g"
  stratified_split ::
    "nat \<Rightarrow> real \<Rightarrow> int list \<Rightarrow> 'g \<Rightarrow> (error + int list \<times> int list) \<times> 'g"

text \<open>
  What a call of \<^verbatim>\<open>prepare_data\<close> does to the world: the calls it makes to its
  collaborators and the line it prints, in order, and the state of the process-global
  random generator of NumPy.
\<close>

datatype event =
    Call_split_dataset task_idx split_kwargs
  | Call_split_dataset_subset "int list" split_kwargs "real option" "int option"
  | Call_train_test_split nat real "int list" "int option"
  | Print nat nat

record 'g world =
  calls :: "event list"
  global_rng :: 'g

definition log_event :: "event \<Rightarrow> 'g world \<Rightarrow> 'g world" where
  "log_event e w = w\<lparr> calls := calls w @ [e] \<rparr>"

text \<open>Sequencing of steps that may raise: the first exception ends the run.\<close>

definition and_then ::
  "('g world \<Rightarrow> (error + 'x) \<times> 'g world) \<Rightarrow> ('x \<Rightarrow> 'g world \<Rightarrow> (error + 'y) \<times> 'g world)
     \<Rightarrow> 'g world \<Rightarrow> (error + 'y) \<times> 'g world" where
  "and_then m f w = (case m w of (Inl e, w') \<Rightarrow> (Inl e, w') | (Inr x, w') \<Rightarrow> f x w')"

definition pure_step :: "error + 'x \<Rightarrow> 'g world \<Rightarrow> (error + 'x) \<times> 'g world" where
  "pure_step r w = (r, w)"

text \<open>Python's \<^verbatim>\<open>[i for i in range(n)]\<close>.\<close>

definition py_range :: "int \<Rightarrow> int list" where
  "py_range n = [0..n - 1]"

section \<open>\<^verbatim>\<open>prepare_datasets\<close> and \<^verbatim>\<open>prepare_dataloaders\<close>\<close>

definition known_datasets :: "string list" where
  "known_datasets =
     [''cifar10'', ''cifar100'', ''stl10'', ''imagenet'', ''imagenet100'', ''domainnet'',
      ''custom'']"

text \<open>
  \<^verbatim>\<open>vars(torchvision.datasets)[dataset.upper()]\<close>, reached for the two CIFAR names
  only.
\<close>

definition DatasetClass :: "string \<Rightarrow> string" where
  "DatasetClass name = (if name = ''cifar10'' then ''CIFAR10'' else ''CIFAR100'')"

text \<open>Constructing the training object, then the validation object.\<close>

definition construct_both ::
  "('a, 'g) env \<Rightarrow> source \<Rightarrow> source \<Rightarrow> error + 'a dataset \<times> 'a dataset" where
  "construct_both env train_source val_source =
     (case construct env train_source of
        Inl e \<Rightarrow> Inl e
      | Inr train_dataset \<Rightarrow>
          (case construct env val_source of
             Inl e \<Rightarrow> Inl e
           | Inr val_dataset \<Rightarrow> Inr (train_dataset, val_dataset)))"

definition prepare_datasets ::
  "('a, 'g) env \<Rightarrow> string \<Rightarrow> transform \<Rightarrow> transform \<Rightarrow> path option \<Rightarrow> path option
     \<Rightarrow> path option \<Rightarrow> string option \<Rightarrow> error + 'a dataset \<times> 'a dataset" where
  "prepare_datasets env name Ttrain Tval ddir tdir vdir domain =
     (let ddir' = (case ddir of
                     None \<Rightarrow> joinpath (sandbox_dir env) (Path False [''datasets''])
                   | Some p \<Rightarrow> p);
          tdir' = (case tdir of None \<Rightarrow> Path False [name, ''train''] | Some p \<Rightarrow> p);
          vdir' = (case vdir of None \<Rightarrow> Path False [name, ''val''] | Some p \<Rightarrow> p)
      in if name \<notin> set known_datasets then Inl AssertionError
         else if name \<in> {''cifar10'', ''cifar100''} then
           construct_both env
             (TorchvisionDataset (DatasetClass name) (joinpath ddir' tdir') True True Ttrain)
             (TorchvisionDataset (DatasetClass name) (joinpath ddir' vdir') False True Tval)
         else if name = ''stl10'' then
           construct_both env
             (STL10 (joinpath ddir' tdir') ''train'' True Ttrain)
             (STL10 (joinpath ddir' vdir') ''test'' True Tval)
         else if name \<in> {''imagenet'', ''imagenet100'', ''custom''} then
           construct_both env
             (ImageFolder (joinpath ddir' tdir') Ttrain)
             (ImageFolder (joinpath ddir' vdir') Tval)
         else
           construct_both env
             (DomainNetDataset ddir' ddir' domain ''train'' Ttrain False)
             (DomainNetDataset ddir' ddir' None ''test'' Tval True))"

text \<open>
  torch's \<^verbatim>\<open>DataLoader(dataset, batch_size=..., shuffle=..., num_workers=...,
  pin_memory=..., drop_last=...)\<close>. The constructor raises \<^verbatim>\<open>ValueError\<close> for a negative
  \<^verbatim>\<open>num_workers\<close>, for a shuffled loader over an empty dataset (the random sampler
  wants a positive number of samples) and for a \<^verbatim>\<open>batch_size\<close> that is not positive.
\<close>

definition DataLoader_init ::
  "'a dataset \<Rightarrow> int \<Rightarrow> bool \<Rightarrow> int \<Rightarrow> bool \<Rightarrow> bool \<Rightarrow> error + 'a DataLoader" where
  "DataLoader_init d bs shuffle nw pin_memory drop_last =
     (if nw < 0 then Inl ValueError
      else if shuffle \<and> len d = 0 then Inl ValueError
      else if bs \<le> 0 then Inl ValueError
      else Inr \<lparr> dl_dataset = d, dl_batch_size = bs, dl_shuffle = shuffle,
                 dl_num_workers = nw, dl_pin_memory = pin_memory,
                 dl_drop_last = drop_last \<rparr>)"

definition prepare_dataloaders ::
  "'a dataset \<Rightarrow> 'a dataset \<Rightarrow> int \<Rightarrow> int \<Rightarrow> error + 'a DataLoader \<times> 'a DataLoader" where
  "prepare_dataloaders train_dataset val_dataset bs nw =
     (case DataLoader_init train_dataset bs True nw True True of
        Inl e \<Rightarrow> Inl e
      | Inr train_loader \<Rightarrow>
          (case DataLoader_init val_dataset bs False nw True False of
             Inl e \<Rightarrow> Inl e
           | Inr val_loader \<Rightarrow> Inr (train_loader, val_loader)))"

section \<open>\<^verbatim>\<open>prepare_data\<close>\<close>

text \<open>
  scikit-learn's \<^verbatim>\<open>train_test_split(range(n), train_size=..., stratify=...,
  random_state=...)\<close>: an integer \<^verbatim>\<open>random_state\<close> seeds a fresh generator, and
  \<^verbatim>\<open>None\<close> draws from the process-global generator and advances it.
\<close>

definition train_test_split ::
  "('a, 'g) env \<Rightarrow> nat \<Rightarrow> real \<Rightarrow> int list \<Rightarrow> int option \<Rightarrow> 'g
     \<Rightarrow> (error + int list \<times> int list) \<times> 'g" where
  "train_test_split env n train_size stratify random_state g =
     (case random_state of
        Some s \<Rightarrow> (fst (stratified_split env n train_size stratify (RandomState env s)), g)
      | None \<Rightarrow> stratified_split env n train_size stratify g)"

text \<open>
  The local variable \<^verbatim>\<open>split_train_dataset\<close> is bound by one of the three branches
  on \<^verbatim>\<open>training_data_source\<close> and stays unbound (\<open>None\<close>) for any other string.
  Lines 312 to 332.
\<close>

definition task_split ::
  "('a, 'g) env \<Rightarrow> config \<Rightarrow> 'a dataset \<Rightarrow> 'g world
     \<Rightarrow> (error + 'a dataset option) \<times> 'g world" where
  "task_split env cfg train_dataset w =
     (if training_data_source cfg = ''all_tasks'' then (Inr (Some train_dataset), w)
      else if training_data_source cfg = ''current_task'' then
        ((case split_dataset env train_dataset (training_task_idx cfg) (split_kwargs_of cfg) of
            Inl e \<Rightarrow> Inl e
          | Inr (split_train_dataset, other) \<Rightarrow> Inr (Some split_train_dataset)),
         log_event (Call_split_dataset (training_task_idx cfg) (split_kwargs_of cfg)) w)
      else if training_data_source cfg = ''seen_tasks'' then
        (case training_task_idx cfg of
           IntIdx t \<Rightarrow>
             (let task_idxs = ListIdx (py_range (t + 1)) in
              ((case split_dataset env train_dataset task_idxs (split_kwargs_of cfg) of
                  Inl e \<Rightarrow> Inl e
                | Inr (split_train_dataset, other) \<Rightarrow> Inr (Some split_train_dataset)),
               log_event (Call_split_dataset task_idxs (split_kwargs_of cfg)) w))
         | NoneIdx \<Rightarrow> (Inl TypeError, w)
         | ListIdx ts \<Rightarrow> (Inl TypeError, w))
      else (Inr None, w))"

definition replay_not_supported :: string where
  "replay_not_supported =
     ''replay is not supported when training_data_source is set to '' @
     [CHR 0x27] @ ''all_tasks'' @ [CHR 0x27]"

text \<open>Lines 334 to 348.\<close>

definition replay_stage ::
  "('a, 'g) env \<Rightarrow> config \<Rightarrow> 'a dataset \<Rightarrow> 'a dataset option \<Rightarrow> 'g world
     \<Rightarrow> (error + 'a dataset option) \<times> 'g world" where
  "replay_stage env cfg train_dataset split_train_dataset w =
     (if training_data_source cfg = ''all_tasks'' \<and> replay cfg then
        (Inl (Exception replay_not_supported), w)
      else if replay cfg then
        (case training_task_idx cfg of
           IntIdx t \<Rightarrow>
             ((case split_dataset_subset env train_dataset (py_range t) (split_kwargs_of cfg)
                     (replay_proportion cfg) (replay_memory_bank_size cfg) of
                 Inl e \<Rightarrow> Inl e
               | Inr None \<Rightarrow> Inr split_train_dataset
               | Inr (Some replay_dataset) \<Rightarrow>
                   (case split_train_dataset of
                      None \<Rightarrow> Inl UnboundLocalError
                    | Some d \<Rightarrow> Inr (Some (ConcatDataset [d, replay_dataset])))),
              log_event (Call_split_dataset_subset (py_range t) (split_kwargs_of cfg)
                           (replay_proportion cfg) (replay_memory_bank_size cfg)) w)
         | NoneIdx \<Rightarrow> (Inl TypeError, w)
         | ListIdx ts \<Rightarrow> (Inl TypeError, w))
      else (Inr split_train_dataset, w))"

text \<open>Line 349.\<close>

definition print_stage ::
  "'a dataset option \<Rightarrow> 'g world \<Rightarrow> (error + 'a dataset) \<times> 'g world" where
  "print_stage split_train_dataset w =
     (case split_train_dataset of
        None \<Rightarrow> (Inl UnboundLocalError, w)
      | Some d \<Rightarrow> (Inr d, log_event (Print (len d) (len d)) w))"

text \<open>
  Lines 350 to 357. The arguments of \<^verbatim>\<open>train_test_split\<close> are evaluated first,
  \<^verbatim>\<open>split_train_dataset.targets\<close> among them.
\<close>

definition semi_supervised_stage ::
  "('a, 'g) env \<Rightarrow> config \<Rightarrow> 'a dataset \<Rightarrow> 'g world \<Rightarrow> (error + 'a dataset) \<times> 'g world" where
  "semi_supervised_stage env cfg split_train_dataset w =
     (case semi_supervised cfg of
        None \<Rightarrow> (Inr split_train_dataset, w)
      | Some train_size \<Rightarrow>
          (case targets split_train_dataset of
             Inl e \<Rightarrow> (Inl e, w)
           | Inr stratify \<Rightarrow>
               (case train_test_split env (len split_train_dataset) train_size stratify
                       (training_split_seed cfg) (global_rng w) of
                  (r, g') \<Rightarrow>
                    ((case r of
                        Inl e \<Rightarrow> Inl e
                      | Inr (idxs, rest) \<Rightarrow> Inr (Subset split_train_dataset idxs)),
                     log_event (Call_train_test_split (len split_train_dataset) train_size
                                  stratify (training_split_seed cfg))
                       (w\<lparr> global_rng := g' \<rparr>)))))"

definition prepare_data ::
  "('a, 'g) env \<Rightarrow> config \<Rightarrow> 'g world
     \<Rightarrow> (error + 'a DataLoader \<times> 'a DataLoader) \<times> 'g world" where
  "prepare_data env cfg =
     and_then (pure_step (prepare_transforms (dataset cfg))) (\<lambda>(Ttrain, Tval).
     and_then (pure_step (prepare_datasets env (dataset cfg) Ttrain Tval (data_dir cfg)
                            (train_dir cfg) (val_dir cfg) (train_domain cfg)))
       (\<lambda>(train_dataset, val_dataset).
     and_then (task_split env cfg train_dataset) (\<lambda>split_train_dataset.
     and_then (replay_stage env cfg train_dataset split_train_dataset) (\<lambda>split_train_dataset.
     and_then (print_stage split_train_dataset) (\<lambda>split_train_dataset.
     and_then (semi_supervised_stage env cfg split_train_dataset) (\<lambda>split_train_dataset.
     pure_step (prepare_dataloaders split_train_dataset val_dataset
                  (batch_size cfg) (num_workers cfg))))))))"

section \<open>The Replay Sampler of the specification\<close>

text \<open>
  Modelled from the spec: the Task Assignment and the Replay Sampler, that is
  \<^verbatim>\<open>split_dataset_subset\<close> of \<^verbatim>\<open>kaizen.utils.pretrain_dataloader\<close>, whose code is
  not part of the sources.

  The Task Assignment is the pure function \<open>task_of kw d i\<close> that the split strategy,
  the seed and the task labelling \<open>kw\<close> induce on the sample indices \<open>i\<close> of the
  dataset \<open>d\<close>; how a strategy groups classes is left open, so it is a parameter.

  The Replay Sampler returns \<^verbatim>\<open>None\<close> when there is no task to replay, whatever
  the budget. Otherwise it takes the union of the Sample Subsets of the tasks in
  \<open>replay_task_idxs\<close> and draws from it. Exactly one of \<open>proportion\<close> and
  \<open>num_samples\<close> governs the size, \<open>num_samples\<close> when both are given; with both unset
  it fails with a \<open>ConfigurationError\<close>. The seeded draw is the parameter \<open>draw\<close>;
  whatever it proposes, only indices of the union are kept, and the budget bounds
  their number.
\<close>

text \<open>
  Modelled from the spec: the Replay Budget, either an absolute sample count or a
  proportion; \<open>num_samples\<close> takes precedence. The two options are unset when they
  have the values a call of \<^verbatim>\<open>prepare_data\<close> passes that names neither:
  \<^verbatim>\<open>num_samples\<close> is \<^verbatim>\<open>None\<close> and \<^verbatim>\<open>proportion\<close> is \<^verbatim>\<open>0.\<close> (or \<^verbatim>\<open>None\<close>).
\<close>

datatype budget = Absolute int | Fraction real

definition replay_budget :: "real option \<Rightarrow> int option \<Rightarrow> budget option" where
  "replay_budget proportion num_samples =
     (case num_samples of
        Some n \<Rightarrow> Some (Absolute n)
      | None \<Rightarrow>
          (case proportion of
             Some p \<Rightarrow> if p = 0 then None else Some (Fraction p)
           | None \<Rightarrow> None))"

text \<open>
  Modelled from the spec: the union of the Sample Subsets of the tasks to replay, as
  the indices of the dataset whose task is one of them.
\<close>

definition sample_indices :: "'a dataset \<Rightarrow> int list" where
  "sample_indices d = map int [0..<len d]"

definition replay_pool ::
  "(split_kwargs \<Rightarrow> 'a dataset \<Rightarrow> int \<Rightarrow> int) \<Rightarrow> split_kwargs \<Rightarrow> 'a dataset \<Rightarrow> int list
     \<Rightarrow> int list" where
  "replay_pool task_of kw d replay_task_idxs =
     filter (\<lambda>i. task_of kw d i \<in> set replay_task_idxs) (sample_indices d)"

text \<open>
  Modelled from the spec: the bound on the drawn indices. An absolute budget caps the
  total; a proportion \<open>p\<close> keeps, of each task to replay, at most the fraction \<open>p\<close> of
  that task's subset.
\<close>

definition bounded ::
  "(int \<Rightarrow> int) \<Rightarrow> int list \<Rightarrow> budget \<Rightarrow> int list \<Rightarrow> int list \<Rightarrow> int list" where
  "bounded task replay_task_idxs b pool drawn =
     (case b of
        Absolute n \<Rightarrow> take (nat n) drawn
      | Fraction p \<Rightarrow>
          concat (map (\<lambda>k. take (nat \<lfloor>p * real (length (filter (\<lambda>i. task i = k) pool))\<rfloor>)
                             (filter (\<lambda>i. task i = k) drawn))
                      (remdups replay_task_idxs)))"

text \<open>
  Modelled from the spec: the Replay Sampler \<^verbatim>\<open>sample_replay(dataset, tasks,
  replay_task_idxs, num_tasks, strategy, seed, proportion, num_samples)\<close>, which is what
  \<^verbatim>\<open>split_dataset_subset\<close> is called with.
\<close>

definition spec_split_dataset_subset ::
  "(split_kwargs \<Rightarrow> 'a dataset \<Rightarrow> int \<Rightarrow> int)
     \<Rightarrow> (int option \<Rightarrow> budget \<Rightarrow> int list \<Rightarrow> int list)
     \<Rightarrow> 'a dataset \<Rightarrow> int list \<Rightarrow> split_kwargs \<Rightarrow> real option \<Rightarrow> int option
     \<Rightarrow> error + 'a dataset option" where
  "spec_split_dataset_subset task_of draw d replay_task_idxs kw proportion num_samples =
     (if replay_task_idxs = [] then Inr None
      else
        (case replay_budget proportion num_samples of
           None \<Rightarrow> Inl ConfigurationError
         | Some b \<Rightarrow>
             (let pool = replay_pool task_of kw d replay_task_idxs;
                  drawn = filter (\<lambda>i. i \<in> set pool) (draw (kw_split_seed kw) b pool)
              in Inr (Some (Subset d (bounded (task_of kw d) replay_task_idxs b pool
                                        drawn))))))"

section \<open>A small concrete run\<close>

text \<open>
  Eight training samples with the labels 0 to 3, two of each, two classes to a task:
  samples 0 to 3 are task 0 and samples 4 to 7 are task 1. The partitioner of this
  example returns objects that carry their \<^verbatim>\<open>targets\<close>; its stratified split keeps
  every second index, starting where the generator's state says.
\<close>

definition example_train :: "nat dataset" where
  "example_train = Data [10, 11, 12, 13, 14, 15, 16, 17] (Some [0, 0, 1, 1, 2, 2, 3, 3])"

definition example_val :: "nat dataset" where
  "example_val = Data [20, 21] (Some [0, 3])"

definition example_task0 :: "nat dataset" where
  "example_task0 = Data [10, 11, 12, 13] (Some [0, 0, 1, 1])"

definition example_task1 :: "nat dataset" where
  "example_task1 = Data [14, 15, 16, 17] (Some [2, 2, 3, 3])"

definition example_task_of :: "split_kwargs \<Rightarrow> nat dataset \<Rightarrow> int \<Rightarrow> int" where
  "example_task_of kw d i = (if i < 4 then 0 else 1)"

definition example_split_dataset ::
  "nat dataset \<Rightarrow> task_idx \<Rightarrow> split_kwargs \<Rightarrow> error + nat dataset \<times> nat dataset" where
  "example_split_dataset d idx kw =
     (if idx = IntIdx 0 \<or> idx = ListIdx [0] then Inr (example_task0, example_task1)
      else if idx = IntIdx 1 then Inr (example_task1, example_task0)
      else if idx = ListIdx [0, 1] then Inr (example_train, Data [] (Some []))
      else Inl ConfigurationError)"

definition example_draw :: "int option \<Rightarrow> budget \<Rightarrow> int list \<Rightarrow> int list" where
  "example_draw seed b pool = rev pool"

definition example_stratified_split ::
  "nat \<Rightarrow> real \<Rightarrow> int list \<Rightarrow> nat \<Rightarrow> (error + int list \<times> int list) \<times> nat" where
  "example_stratified_split n train_size stratify g =
     (Inr (filter (\<lambda>i. i mod 2 = int (g mod 2)) (map int [0..<n]),
           filter (\<lambda>i. i mod 2 \<noteq> int (g mod 2)) (map int [0..<n])),
      Suc g)"

definition example_env :: "(nat, nat) env" where
  "example_env =
     \<lparr> sandbox_dir = Path True [''kaizen''],
       construct = (\<lambda>src. case src of
                      TorchvisionDataset c p train download T \<Rightarrow>
                        Inr (if train then example_train else example_val)
                    | STL10 p split download T \<Rightarrow> Inl (CollaboratorError ''no such file'')
                    | ImageFolder p T \<Rightarrow> Inl (CollaboratorError ''no such file'')
                    | DomainNetDataset p q ds split T r \<Rightarrow>
                        Inl (CollaboratorError ''no such file'')),
       split_dataset = example_split_dataset,
       split_dataset_subset = spec_split_dataset_subset example_task_of example_draw,
       RandomState = (\<lambda>s. nat s),
       stratified_split = example_stratified_split \<rparr>"

definition example_cfg :: config where
  "example_cfg =
     (default_config ''cifar10'')
       \<lparr> training_data_source := ''current_task'', training_num_tasks := Some 2,
         training_task_idx := IntIdx 1, training_split_strategy := Some ''class'',
         training_split_seed := Some 5, replay := True, replay_memory_bank_size := Some 2 \<rparr>"

definition fresh :: "'g \<Rightarrow> 'g world" where
  "fresh g = \<lparr> calls = [], global_rng = g \<rparr>"

text \<open>The two loaders over a training set \<open>d\<close> and the validation set of the example.\<close>

definition example_loaders :: "nat dataset \<Rightarrow> nat DataLoader \<times> nat DataLoader" where
  "example_loaders d =
     (\<lparr> dl_dataset = d, dl_batch_size = 64, dl_shuffle = True, dl_num_workers = 4,
        dl_pin_memory = True, dl_drop_last = True \<rparr>,
      \<lparr> dl_dataset = example_val, dl_batch_size = 64, dl_shuffle = False,
        dl_num_workers = 4, dl_pin_memory = True, dl_drop_last = False \<rparr>)"

definition cfg_replay_semi_supervised :: config where
  "cfg_replay_semi_supervised = example_cfg\<lparr> semi_supervised := Some (1 / 2) \<rparr>"

definition cfg_all_tasks_replay :: config where
  "cfg_all_tasks_replay =
     example_cfg\<lparr> training_data_source := ''all_tasks'', training_task_idx := IntIdx 0 \<rparr>"

definition cfg_first_task :: config where
  "cfg_first_task = example_cfg\<lparr> training_task_idx := IntIdx 0 \<rparr>"

definition cfg_first_task_semi_supervised :: config where
  "cfg_first_task_semi_supervised = cfg_first_task\<lparr> semi_supervised := Some (1 / 2) \<rparr>"

definition cfg_unseeded :: config where
  "cfg_unseeded =
     example_cfg\<lparr> training_data_source := ''all_tasks'', replay := False,
                  semi_supervised := Some (1 / 2), training_split_seed := None \<rparr>"





definition example_wrapper :: "real \<Rightarrow> (real, unit, unit) wrapper" where
  "example_wrapper lamb =
     \<lparr> self_distill_lamb = lamb, self_lr = 3 / 10, self_weight_decay = 1 / 100,
       distill_predictor = (\<lambda>x. 2 * x), distill_predictor_parameters = (),
       byol_loss_func = (\<lambda>p t. Finite (2 - 2 * (p * t))),
       super_learnable_params = [],
       super_training_step =
         (\<lambda>b i. \<lparr> out_z = (1, 2), out_frozen_z = (3, 1 / 2), out_loss = Finite 5 \<rparr>) \<rparr>"

text \<open>The same wrapper once the predictor has diverged: the regression loss is \<^verbatim>\<open>nan\<close>.\<close>

definition diverged_wrapper :: "real \<Rightarrow> (real, unit, unit) wrapper" where
  "diverged_wrapper lamb = (example_wrapper lamb)\<lparr> byol_loss_func := (\<lambda>p t. NaN) \<rparr>"

section \<open>Properties of the distillation wrapper\<close>

lemma fadd_zero [simp]: "fadd x (Finite 0) = x"
  by (cases x) simp_all

lemma fmul_zero: "fmul (Finite 0) x = (case x of Finite d \<Rightarrow> Finite 0 | _ \<Rightarrow> NaN)"
  by (cases x) (simp_all add: signed_inf_def)

lemma fadd_NaN [simp]: "fadd x NaN = NaN"
  by (cases x) simp_all

text \<open>
  C1, as amended. In every training step, with \<open>(z1, z2)\<close> the student embeddings and
  \<open>(frozen_z1, frozen_z2)\<close> the teacher embeddings returned by the parent's step, the
  wrapper computes \<open>p1 = predictor z1\<close> and \<open>p2 = predictor z2\<close>, forms the distillation
  loss \<open>(loss_fn p1 frozen_z1 + loss_fn p2 frozen_z2) / 2\<close> (which is also what it logs)
  and returns exactly \<open>primary_loss + distill_lamb * distill_loss\<close>. When
  \<open>distill_lamb\<close> is 0 and the distillation loss is finite the returned loss is the
  primary loss; when \<open>distill_lamb\<close> is 0 and the distillation loss is an infinity or
  \<^verbatim>\<open>nan\<close> the returned loss is \<^verbatim>\<open>nan\<close>.
\<close>

theorem training_step_loss:
  fixes self :: "('e, 'p, 'b) wrapper"
  assumes "super_training_step self batch batch_idx =
             \<lparr> out_z = (z1, z2), out_frozen_z = (frozen_z1, frozen_z2), out_loss = primary \<rparr>"
    and "p1 = distill_predictor self z1"
    and "p2 = distill_predictor self z2"
    and "dl = fdiv (fadd (byol_loss_func self p1 frozen_z1)
                         (byol_loss_func self p2 frozen_z2)) 2"
  shows "training_step self batch batch_idx =
           ([(''train_predictive_distill_loss'', dl)],
            fadd primary (fmul (Finite (self_distill_lamb self)) dl)) \<and>
         (self_distill_lamb self = 0 \<longrightarrow> (\<exists>d. dl = Finite d) \<longrightarrow>
            snd (training_step self batch batch_idx) = primary) \<and>
         (self_distill_lamb self = 0 \<longrightarrow> (\<nexists>d. dl = Finite d) \<longrightarrow>
            snd (training_step self batch batch_idx) = NaN)"
proof -
  have step: "training_step self batch batch_idx =
           ([(''train_predictive_distill_loss'', dl)],
            fadd primary (fmul (Finite (self_distill_lamb self)) dl))"
    using assms by (simp add: training_step_def distill_loss_def Let_def)
  have "snd (training_step self batch batch_idx) = primary"
    if "self_distill_lamb self = 0" "\<exists>d. dl = Finite d"
    using that by (auto simp: step)
  moreover have "snd (training_step self batch batch_idx) = NaN"
    if "self_distill_lamb self = 0" "\<nexists>d. dl = Finite d"
    using that by (cases dl) (simp_all add: step signed_inf_def)
  ultimately show ?thesis using step by blast
qed

theorem training_step_loss_witness:
  "super_training_step (example_wrapper (1 / 2)) () 7 =
     \<lparr> out_z = (1, 2), out_frozen_z = (3, 1 / 2), out_loss = Finite 5 \<rparr> \<and>
   training_step (example_wrapper (1 / 2)) () 7 =
     ([(''train_predictive_distill_loss'', Finite (- 6))], Finite 2) \<and>
   self_distill_lamb (example_wrapper 0) = 0 \<and>
   training_step (example_wrapper 0) () 7 =
     ([(''train_predictive_distill_loss'', Finite (- 6))], Finite 5) \<and>
   snd (training_step (example_wrapper 0) () 7) = Finite 5 \<and>
   self_distill_lamb (diverged_wrapper 0) = 0 \<and>
   snd (training_step (diverged_wrapper 0) () 7) = NaN"
proof -
  have out: "super_training_step (example_wrapper lamb) () 7 =
     \<lparr> out_z = (1, 2), out_frozen_z = (3, 1 / 2), out_loss = Finite 5 \<rparr>" for lamb
    by (simp add: example_wrapper_def)
  have p1: "(2::real) = distill_predictor (example_wrapper lamb) 1" for lamb
    by (simp add: example_wrapper_def)
  have p2: "(4::real) = distill_predictor (example_wrapper lamb) 2" for lamb
    by (simp add: example_wrapper_def)
  have dl: "Finite (- 6) = fdiv (fadd (byol_loss_func (example_wrapper lamb) 2 3)
                                     (byol_loss_func (example_wrapper lamb) 4 (1 / 2))) 2"
    for lamb
    by (simp add: example_wrapper_def)
  have half: "self_distill_lamb (example_wrapper (1 / 2)) = 1 / 2"
    by (simp add: example_wrapper_def)
  have zero: "self_distill_lamb (example_wrapper 0) = 0"
    by (simp add: example_wrapper_def)
  have a: "training_step (example_wrapper (1 / 2)) () 7 =
     ([(''train_predictive_distill_loss'', Finite (- 6))], Finite 2)"
    using training_step_loss [OF out p1 p2 dl, of "1 / 2"] by (simp add: half)
  have b: "training_step (example_wrapper 0) () 7 =
     ([(''train_predictive_distill_loss'', Finite (- 6))], Finite 5)"
    using training_step_loss [OF out p1 p2 dl, of 0] by (simp add: zero)
  have dout: "super_training_step (diverged_wrapper 0) () 7 =
     \<lparr> out_z = (1, 2), out_frozen_z = (3, 1 / 2), out_loss = Finite 5 \<rparr>"
    by (simp add: diverged_wrapper_def example_wrapper_def)
  have dp1: "(2::real) = distill_predictor (diverged_wrapper 0) 1"
    by (simp add: diverged_wrapper_def example_wrapper_def)
  have dp2: "(4::real) = distill_predictor (diverged_wrapper 0) 2"
    by (simp add: diverged_wrapper_def example_wrapper_def)
  have ddl: "NaN = fdiv (fadd (byol_loss_func (diverged_wrapper 0) 2 3)
                              (byol_loss_func (diverged_wrapper 0) 4 (1 / 2))) 2"
    by (simp add: diverged_wrapper_def example_wrapper_def)
  have dzero: "self_distill_lamb (diverged_wrapper 0) = 0"
    by (simp add: diverged_wrapper_def example_wrapper_def)
  have c: "snd (training_step (diverged_wrapper 0) () 7) = NaN"
    using training_step_loss [OF dout dp1 dp2 ddl] dzero by simp
  from out [of "1 / 2"] a zero b c dzero show ?thesis by simp
qed

text \<open>
  C1 as stated fails when the distillation loss is not finite: with
  \<open>distill_lamb = 0\<close> and a regression loss that is \<^verbatim>\<open>nan\<close>, the primary loss is 5 and
  the returned loss is \<^verbatim>\<open>nan\<close>.
\<close>

theorem training_step_loss_counterexample:
  "self_distill_lamb (diverged_wrapper 0) = 0 \<and>
   out_loss (super_training_step (diverged_wrapper 0) () 7) = Finite 5 \<and>
   distill_loss (diverged_wrapper 0) (super_training_step (diverged_wrapper 0) () 7) = NaN \<and>
   snd (training_step (diverged_wrapper 0) () 7) = NaN \<and>
   snd (training_step (diverged_wrapper 0) () 7) \<noteq>
   out_loss (super_training_step (diverged_wrapper 0) () 7)"
  by (simp add: training_step_def distill_loss_def Let_def diverged_wrapper_def example_wrapper_def)

lemma training_step_example:
  "training_step (example_wrapper (1 / 2)) () 7 =
     ([(''train_predictive_distill_loss'', Finite (- 6))], Finite 2)"
  by (simp add: training_step_def distill_loss_def Let_def example_wrapper_def)

text \<open>
  C7. For every \<open>distill_lamb > 0\<close> the learning rate of the distill predictor's
  parameter group is \<open>lr / distill_lamb\<close> when \<open>distill_lamb < 1\<close> and the base rate
  \<open>lr\<close> when \<open>distill_lamb \<ge> 1\<close>; with \<open>distill_lamb = 2\<close> it is the base rate. The
  group is the last one of \<open>learnable_params\<close>, after the parent's groups.
\<close>

theorem predictor_lr_scaling:
  fixes self :: "('e, 'p, 'b) wrapper"
  shows "(0 < self_distill_lamb self \<longrightarrow>
            predictor_lr self =
              Inr (if self_distill_lamb self < 1 then self_lr self / self_distill_lamb self
                   else self_lr self) \<and>
            (\<exists>r. predictor_lr self = Inr r \<and>
                 learnable_params self =
                   Inr (super_learnable_params self @
                        [\<lparr> pg_name = ''distill_predictor'',
                           pg_params = distill_predictor_parameters self,
                           pg_lr = Some r,
                           pg_weight_decay = Some (self_weight_decay self) \<rparr>]))) \<and>
         (self_distill_lamb self = 2 \<longrightarrow> predictor_lr self = Inr (self_lr self))"
  by (auto simp: predictor_lr_def py_truediv_def learnable_params_def)

theorem predictor_lr_scaling_witness:
  "0 < self_distill_lamb (example_wrapper (1 / 4)) \<and>
   predictor_lr (example_wrapper (1 / 4)) = Inr (6 / 5) \<and>
   self_distill_lamb (example_wrapper 2) = 2 \<and>
   predictor_lr (example_wrapper 2) = Inr (3 / 10)"
  using predictor_lr_scaling [of "example_wrapper (1 / 4)"]
        predictor_lr_scaling [of "example_wrapper 2"]
  by (simp add: example_wrapper_def)

text \<open>
  C9. \<open>distill_lamb = 0\<close> is below 1, so \<open>learnable_params\<close> divides the base learning
  rate by zero: the computation raises \<open>ZeroDivisionError\<close> and has no value. Among the
  values \<open>distill_lamb \<ge> 0\<close> that the configuration allows, the learning rate is defined
  exactly for \<open>distill_lamb > 0\<close>.
\<close>

theorem learnable_params_zero_lamb:
  fixes self :: "('e, 'p, 'b) wrapper"
  shows "(self_distill_lamb self = 0 \<longrightarrow>
            predictor_lr self = Inl ZeroDivisionError \<and>
            learnable_params self = Inl ZeroDivisionError) \<and>
         (0 \<le> self_distill_lamb self \<longrightarrow>
            ((\<exists>ps. learnable_params self = Inr ps) \<longleftrightarrow> 0 < self_distill_lamb self))"
  by (auto simp: predictor_lr_def py_truediv_def learnable_params_def split: sum.splits)

theorem learnable_params_zero_lamb_witness:
  "self_distill_lamb (example_wrapper 0) = 0 \<and>
   0 \<le> self_distill_lamb (example_wrapper 0) \<and>
   learnable_params (example_wrapper 0) = Inl ZeroDivisionError \<and>
   \<not> (\<exists>ps. learnable_params (example_wrapper 0) = Inr ps)"
  using learnable_params_zero_lamb [of "example_wrapper 0"]
  by (simp add: example_wrapper_def)

section \<open>Properties of \<^verbatim>\<open>prepare_data\<close>\<close>

lemma prepare_data_unfold:
  "prepare_data env cfg w =
     (case prepare_transforms (dataset cfg) of
        Inl e \<Rightarrow> (Inl e, w)
      | Inr (Ttrain, Tval) \<Rightarrow>
          (case prepare_datasets env (dataset cfg) Ttrain Tval (data_dir cfg) (train_dir cfg)
                  (val_dir cfg) (train_domain cfg) of
             Inl e \<Rightarrow> (Inl e, w)
           | Inr (train_dataset, val_dataset) \<Rightarrow>
               and_then (task_split env cfg train_dataset) (\<lambda>s.
               and_then (replay_stage env cfg train_dataset s) (\<lambda>s.
               and_then (print_stage s) (\<lambda>d.
               and_then (semi_supervised_stage env cfg d) (\<lambda>d.
               pure_step (prepare_dataloaders d val_dataset
                                 (batch_size cfg) (num_workers cfg)))))) w))"
  by (simp add: prepare_data_def and_then_def pure_step_def split: sum.splits prod.splits)




lemma and_then_Inr:
  "and_then m f w = (Inr y, w') \<longleftrightarrow> (\<exists>x w1. m w = (Inr x, w1) \<and> f x w1 = (Inr y, w'))"
  by (auto simp: and_then_def split: sum.splits prod.splits)

lemma prepare_data_Inr:
  "prepare_data env cfg w = (Inr (train_loader, val_loader), w') \<Longrightarrow>
   \<exists>Ttrain Tval train_dataset val_dataset d.
     prepare_transforms (dataset cfg) = Inr (Ttrain, Tval) \<and>
     prepare_datasets env (dataset cfg) Ttrain Tval (data_dir cfg) (train_dir cfg)
       (val_dir cfg) (train_domain cfg) = Inr (train_dataset, val_dataset) \<and>
     prepare_dataloaders d val_dataset (batch_size cfg) (num_workers cfg) =
       Inr (train_loader, val_loader)"
  by (fastforce simp: prepare_data_unfold and_then_Inr pure_step_def
                split: sum.splits prod.splits)

lemma prepare_datasets_val:
  "prepare_datasets env name Ttrain Tval ddir tdir vdir domain = Inr (tr, va) \<Longrightarrow>
   prepare_datasets env name Ttrain Tval ddir tdir' vdir domain' = Inr (tr', va') \<Longrightarrow>
   va' = va"
  by (auto simp: prepare_datasets_def construct_both_def Let_def
           split: if_splits sum.splits)

text \<open>
  C10. The validation loader does not depend on the continual-learning options. Two
  calls that agree on \<^verbatim>\<open>dataset\<close>, \<^verbatim>\<open>data_dir\<close>, \<^verbatim>\<open>val_dir\<close>, \<^verbatim>\<open>batch_size\<close> and
  \<^verbatim>\<open>num_workers\<close>, and differ in any way in \<^verbatim>\<open>training_data_source\<close>,
  \<^verbatim>\<open>training_task_idx\<close>, \<^verbatim>\<open>replay\<close>, \<^verbatim>\<open>replay_proportion\<close>,
  \<^verbatim>\<open>replay_memory_bank_size\<close>, \<^verbatim>\<open>semi_supervised\<close> and the other training options,
  return the same validation loader whenever both return, and that loader is built over
  the whole validation dataset of \<^verbatim>\<open>prepare_datasets\<close>, unshuffled and keeping the last
  batch.
\<close>

theorem validation_loader_frame:
  assumes "fst (prepare_data env cfg w) = Inr (train_loader, val_loader)"
    and "fst (prepare_data env cfg' w') = Inr (train_loader', val_loader')"
    and "dataset cfg' = dataset cfg" and "data_dir cfg' = data_dir cfg"
    and "val_dir cfg' = val_dir cfg"
    and "batch_size cfg' = batch_size cfg" and "num_workers cfg' = num_workers cfg"
  shows "val_loader' = val_loader \<and>
         (\<exists>Ttrain Tval train_dataset val_dataset.
            prepare_transforms (dataset cfg) = Inr (Ttrain, Tval) \<and>
            prepare_datasets env (dataset cfg) Ttrain Tval (data_dir cfg) (train_dir cfg)
              (val_dir cfg) (train_domain cfg) = Inr (train_dataset, val_dataset) \<and>
            val_loader =
              \<lparr> dl_dataset = val_dataset, dl_batch_size = batch_size cfg, dl_shuffle = False,
                dl_num_workers = num_workers cfg, dl_pin_memory = True,
                dl_drop_last = False \<rparr>)"
proof -
  from assms(1) obtain w1 where "prepare_data env cfg w = (Inr (train_loader, val_loader), w1)"
    by (cases "prepare_data env cfg w") auto
  from prepare_data_Inr [OF this] obtain Tt Tv tr va d where
    t: "prepare_transforms (dataset cfg) = Inr (Tt, Tv)" and
    p: "prepare_datasets env (dataset cfg) Tt Tv (data_dir cfg) (train_dir cfg)
          (val_dir cfg) (train_domain cfg) = Inr (tr, va)" and
    l: "prepare_dataloaders d va (batch_size cfg) (num_workers cfg) =
          Inr (train_loader, val_loader)"
    by blast
  from assms(2) obtain w2 where "prepare_data env cfg' w' = (Inr (train_loader', val_loader'), w2)"
    by (cases "prepare_data env cfg' w'") auto
  from prepare_data_Inr [OF this] obtain Tt' Tv' tr' va' d' where
    t': "prepare_transforms (dataset cfg') = Inr (Tt', Tv')" and
    p': "prepare_datasets env (dataset cfg') Tt' Tv' (data_dir cfg') (train_dir cfg')
          (val_dir cfg') (train_domain cfg') = Inr (tr', va')" and
    l': "prepare_dataloaders d' va' (batch_size cfg') (num_workers cfg') =
          Inr (train_loader', val_loader')"
    by blast
  from t t' assms(3) have T: "Tt' = Tt" "Tv' = Tv" by simp_all
  from prepare_datasets_val [OF p] p' assms(3-5) T have va: "va' = va" by simp
  from l have vl: "val_loader =
      \<lparr> dl_dataset = va, dl_batch_size = batch_size cfg, dl_shuffle = False,
        dl_num_workers = num_workers cfg, dl_pin_memory = True, dl_drop_last = False \<rparr>"
    by (auto simp: prepare_dataloaders_def DataLoader_init_def split: if_splits sum.splits)
  from l' va assms(6,7) have "val_loader' =
      \<lparr> dl_dataset = va, dl_batch_size = batch_size cfg, dl_shuffle = False,
        dl_num_workers = num_workers cfg, dl_pin_memory = True, dl_drop_last = False \<rparr>"
    by (auto simp: prepare_dataloaders_def DataLoader_init_def split: if_splits sum.splits)
  with vl t p show ?thesis by blast
qed

lemma py_range_simps [simp]: "py_range 0 = []" "py_range 1 = [0]"
  by (simp_all add: py_range_def)

lemma set_py_range: "set (py_range t) = {0..<t}"
  by (auto simp: py_range_def)

lemma task_split_calls:
  "task_split env cfg d w = (r, w') \<Longrightarrow>
   global_rng w' = global_rng w \<and>
   (\<exists>evs. calls w' = calls w @ evs \<and>
      (\<forall>ev\<in>set evs. \<exists>idx. ev = Call_split_dataset idx (split_kwargs_of cfg)))"
  by (auto simp: task_split_def log_event_def Let_def split: if_splits task_idx.splits)

lemma replay_stage_calls:
  "replay_stage env cfg d s w = (r, w') \<Longrightarrow>
   global_rng w' = global_rng w \<and>
   (\<exists>evs. calls w' = calls w @ evs \<and>
      (\<forall>ev\<in>set evs. \<exists>t. training_task_idx cfg = IntIdx t \<and>
         ev = Call_split_dataset_subset (py_range t) (split_kwargs_of cfg)
                (replay_proportion cfg) (replay_memory_bank_size cfg)))"
  by (auto simp: replay_stage_def log_event_def split: if_splits task_idx.splits)

lemma print_stage_calls:
  "print_stage s w = (r, w') \<Longrightarrow>
   global_rng w' = global_rng w \<and>
   (\<exists>evs. calls w' = calls w @ evs \<and> (\<forall>ev\<in>set evs. \<exists>n. ev = Print n n))"
  by (auto simp: print_stage_def log_event_def split: option.splits)

lemma semi_supervised_stage_calls:
  "semi_supervised_stage env cfg d w = (r, w') \<Longrightarrow>
   \<exists>evs. calls w' = calls w @ evs \<and>
      (\<forall>ev\<in>set evs. \<exists>n f st. ev = Call_train_test_split n f st (training_split_seed cfg))"
  by (auto simp: semi_supervised_stage_def log_event_def
           split: option.splits sum.splits prod.splits)


lemma and_then_calls:
  assumes m: "\<And>r w'. m w = (r, w') \<Longrightarrow> \<exists>evs. calls w' = calls w @ evs \<and> (\<forall>ev\<in>set evs. P ev)"
    and f: "\<And>x w1 r w'. f x w1 = (r, w') \<Longrightarrow>
              \<exists>evs. calls w' = calls w1 @ evs \<and> (\<forall>ev\<in>set evs. P ev)"
    and run: "and_then m f w = (r, w')"
  shows "\<exists>evs. calls w' = calls w @ evs \<and> (\<forall>ev\<in>set evs. P ev)"
proof (cases "m w")
  case (Pair r1 w1)
  from m [OF Pair] obtain evs1 where 1: "calls w1 = calls w @ evs1" "\<forall>ev\<in>set evs1. P ev"
    by blast
  show ?thesis
  proof (cases r1)
    case (Inl e)
    with Pair run have "w' = w1" by (simp add: and_then_def)
    with 1 show ?thesis by blast
  next
    case (Inr x)
    with Pair run have "f x w1 = (r, w')" by (simp add: and_then_def)
    from f [OF this] obtain evs2 where "calls w' = calls w1 @ evs2" "\<forall>ev\<in>set evs2. P ev"
      by blast
    with 1 have "calls w' = calls w @ (evs1 @ evs2)" "\<forall>ev\<in>set (evs1 @ evs2). P ev"
      by auto
    then show ?thesis by blast
  qed
qed

lemma pure_step_calls:
  "pure_step x w = (r, w') \<Longrightarrow> \<exists>evs. calls w' = calls w @ evs \<and> (\<forall>ev\<in>set evs. P ev)"
  by (auto simp: pure_step_def)

lemma prepare_data_calls:
  assumes "prepare_data env cfg w = (r, w')"
  shows "\<exists>evs. calls w' = calls w @ evs \<and>
           (\<forall>ev\<in>set evs.
              (\<exists>idx. ev = Call_split_dataset idx (split_kwargs_of cfg)) \<or>
              (\<exists>t. training_task_idx cfg = IntIdx t \<and>
                   ev = Call_split_dataset_subset (py_range t) (split_kwargs_of cfg)
                          (replay_proportion cfg) (replay_memory_bank_size cfg)) \<or>
              (\<exists>n. ev = Print n n) \<or>
              (\<exists>n f st. ev = Call_train_test_split n f st (training_split_seed cfg)))"
  using assms unfolding prepare_data_def
  apply (rule and_then_calls [rotated 2])
   apply (erule pure_step_calls)
  apply (clarsimp simp del: ex_simps)
  apply (erule and_then_calls [rotated 2])
   apply (erule pure_step_calls)
  apply (clarsimp simp del: ex_simps)
  apply (erule and_then_calls [rotated 2])
   apply (drule task_split_calls, blast)
  apply (erule and_then_calls [rotated 2])
   apply (drule replay_stage_calls, blast)
  apply (erule and_then_calls [rotated 2])
   apply (drule print_stage_calls, blast)
  apply (erule and_then_calls [rotated 2])
   apply (drule semi_supervised_stage_calls, blast)
  apply (erule pure_step_calls)
  done

lemma replay_stage_Inr:
  "replay cfg \<Longrightarrow> replay_stage env cfg d s w = (Inr x, w') \<Longrightarrow>
   \<exists>t. training_task_idx cfg = IntIdx t \<and>
       calls w' = calls w @ [Call_split_dataset_subset (py_range t) (split_kwargs_of cfg)
                               (replay_proportion cfg) (replay_memory_bank_size cfg)]"
  by (auto simp: replay_stage_def log_event_def split: if_splits task_idx.splits)

lemma prepare_data_replay_call:
  assumes "replay cfg" and "training_task_idx cfg = IntIdx t"
    and run: "prepare_data env cfg w = (Inr loaders, w')"
  shows "Call_split_dataset_subset (py_range t) (split_kwargs_of cfg)
           (replay_proportion cfg) (replay_memory_bank_size cfg) \<in> set (calls w')"
proof -
  from run obtain tr s w1 s' w2 d w3 d' where
    2: "replay_stage env cfg tr s w1 = (Inr s', w2)" and
    3: "print_stage s' w2 = (Inr d, w3)" and
    4: "semi_supervised_stage env cfg d w3 = (Inr d', w')"
    by (auto simp: prepare_data_unfold and_then_Inr pure_step_def
             split: sum.splits prod.splits)
  from replay_stage_Inr [OF assms(1) 2] assms(2)
  have "Call_split_dataset_subset (py_range t) (split_kwargs_of cfg)
           (replay_proportion cfg) (replay_memory_bank_size cfg) \<in> set (calls w2)"
    by auto
  moreover from print_stage_calls [OF 3] have "set (calls w2) \<subseteq> set (calls w3)" by auto
  moreover from semi_supervised_stage_calls [OF 4] have "set (calls w3) \<subseteq> set (calls w')"
    by auto
  ultimately show ?thesis by blast
qed

lemma train_test_split_seeded:
  "fst (train_test_split env n f st (Some s) g) = fst (train_test_split env n f st (Some s) g') \<and>
   snd (train_test_split env n f st (Some s) g) = g"
  by (simp add: train_test_split_def)

lemma task_split_rng:
  "task_split env cfg d (w\<lparr>global_rng := g\<rparr>) =
     (fst (task_split env cfg d w), (snd (task_split env cfg d w))\<lparr>global_rng := g\<rparr>)"
  by (auto simp: task_split_def log_event_def Let_def split: task_idx.splits)

lemma replay_stage_rng:
  "replay_stage env cfg d s (w\<lparr>global_rng := g\<rparr>) =
     (fst (replay_stage env cfg d s w), (snd (replay_stage env cfg d s w))\<lparr>global_rng := g\<rparr>)"
  by (auto simp: replay_stage_def log_event_def split: task_idx.splits)

lemma print_stage_rng:
  "print_stage s (w\<lparr>global_rng := g\<rparr>) =
     (fst (print_stage s w), (snd (print_stage s w))\<lparr>global_rng := g\<rparr>)"
  by (auto simp: print_stage_def log_event_def split: option.splits)

lemma semi_supervised_stage_rng:
  "training_split_seed cfg = Some s \<Longrightarrow>
   semi_supervised_stage env cfg d (w\<lparr>global_rng := g\<rparr>) =
     (fst (semi_supervised_stage env cfg d w),
      (snd (semi_supervised_stage env cfg d w))\<lparr>global_rng := g\<rparr>)"
  by (auto simp: semi_supervised_stage_def log_event_def train_test_split_def
           split: option.splits sum.splits prod.splits)

lemma and_then_rng:
  assumes "m (w\<lparr>global_rng := g\<rparr>) = (fst (m w), (snd (m w))\<lparr>global_rng := g\<rparr>)"
    and "\<And>x w1. f x (w1\<lparr>global_rng := g\<rparr>) = (fst (f x w1), (snd (f x w1))\<lparr>global_rng := g\<rparr>)"
  shows "and_then m f (w\<lparr>global_rng := g\<rparr>) =
           (fst (and_then m f w), (snd (and_then m f w))\<lparr>global_rng := g\<rparr>)"
  using assms by (cases "m w") (auto simp: and_then_def split: sum.splits)

lemma pure_step_rng:
  "pure_step x (w\<lparr>global_rng := g\<rparr>) = (fst (pure_step x w), (snd (pure_step x w))\<lparr>global_rng := g\<rparr>)"
  by (simp add: pure_step_def)

lemma prepare_data_rng:
  assumes "training_split_seed cfg = Some s"
  shows "prepare_data env cfg (w\<lparr>global_rng := g\<rparr>) =
           (fst (prepare_data env cfg w), (snd (prepare_data env cfg w))\<lparr>global_rng := g\<rparr>)"
proof -
  have tail: "and_then (task_split env cfg tr) (\<lambda>s.
               and_then (replay_stage env cfg tr s) (\<lambda>s.
               and_then (print_stage s) (\<lambda>d.
               and_then (semi_supervised_stage env cfg d) (\<lambda>d.
               pure_step (prepare_dataloaders d va
                                 (batch_size cfg) (num_workers cfg)))))) (w\<lparr>global_rng := g\<rparr>) =
         (fst (and_then (task_split env cfg tr) (\<lambda>s.
               and_then (replay_stage env cfg tr s) (\<lambda>s.
               and_then (print_stage s) (\<lambda>d.
               and_then (semi_supervised_stage env cfg d) (\<lambda>d.
               pure_step (prepare_dataloaders d va
                                 (batch_size cfg) (num_workers cfg)))))) w),
          (snd (and_then (task_split env cfg tr) (\<lambda>s.
               and_then (replay_stage env cfg tr s) (\<lambda>s.
               and_then (print_stage s) (\<lambda>d.
               and_then (semi_supervised_stage env cfg d) (\<lambda>d.
               pure_step (prepare_dataloaders d va
                                 (batch_size cfg) (num_workers cfg)))))) w))\<lparr>global_rng := g\<rparr>)"
    for tr va
    by (intro and_then_rng task_split_rng replay_stage_rng print_stage_rng
          semi_supervised_stage_rng [OF assms] pure_step_rng)
  show ?thesis
    by (simp add: prepare_data_unfold tail split: sum.splits prod.splits)
qed

text \<open>
  C8, as amended. For every configuration that declares an integer
  \<^verbatim>\<open>training_split_seed\<close>, two runs of \<^verbatim>\<open>prepare_data\<close> on the same inputs return the
  same loaders and make the same calls whatever the state of the process-global random
  generator, which they leave untouched; and the declared seed is the one handed to the
  partitioner, to the sampler and to the stratified split.
\<close>

theorem seeded_runs_agree:
  assumes "training_split_seed cfg = Some s"
  shows "fst (prepare_data env cfg (fresh g)) = fst (prepare_data env cfg (fresh g')) \<and>
         calls (snd (prepare_data env cfg (fresh g))) =
           calls (snd (prepare_data env cfg (fresh g'))) \<and>
         global_rng (snd (prepare_data env cfg (fresh g))) = g \<and>
         (\<forall>ev\<in>set (calls (snd (prepare_data env cfg (fresh g)))).
            (\<forall>idx kw. ev = Call_split_dataset idx kw \<longrightarrow> kw_split_seed kw = Some s) \<and>
            (\<forall>ids kw p n. ev = Call_split_dataset_subset ids kw p n \<longrightarrow>
               kw_split_seed kw = Some s) \<and>
            (\<forall>n f st rs. ev = Call_train_test_split n f st rs \<longrightarrow> rs = Some s))"
proof -
  have g: "fresh g = (fresh g')\<lparr>global_rng := g\<rparr>" for g g' :: 'b
    by (simp add: fresh_def)
  have 1: "prepare_data env cfg (fresh g) =
           (fst (prepare_data env cfg (fresh g')),
            (snd (prepare_data env cfg (fresh g')))\<lparr>global_rng := g\<rparr>)"
    by (subst g [of g g']) (rule prepare_data_rng [OF assms])
  have 2: "prepare_data env cfg (fresh g) =
           (fst (prepare_data env cfg (fresh g)),
            (snd (prepare_data env cfg (fresh g)))\<lparr>global_rng := g\<rparr>)"
    by (subst (1) g [of g g]) (rule prepare_data_rng [OF assms])
  from 2 have 3: "global_rng (snd (prepare_data env cfg (fresh g))) = g"
    by (metis snd_conv world.select_convs(2) world.surjective world.update_convs(2))
  obtain r w' where run: "prepare_data env cfg (fresh g) = (r, w')"
    by (cases "prepare_data env cfg (fresh g)")
  from prepare_data_calls [OF run] assms run
  have 4: "\<forall>ev\<in>set (calls (snd (prepare_data env cfg (fresh g)))).
            (\<forall>idx kw. ev = Call_split_dataset idx kw \<longrightarrow> kw_split_seed kw = Some s) \<and>
            (\<forall>ids kw p n. ev = Call_split_dataset_subset ids kw p n \<longrightarrow>
               kw_split_seed kw = Some s) \<and>
            (\<forall>n f st rs. ev = Call_train_test_split n f st rs \<longrightarrow> rs = Some s)"
    by (auto simp: fresh_def split_kwargs_of_def)
  from 1 3 4 show ?thesis by simp
qed

lemma spec_sampler_empty:
  "spec_split_dataset_subset task_of draw d [] kw p n = Inr None"
  by (simp add: spec_split_dataset_subset_def)


lemma spec_sampler_None:
  "spec_split_dataset_subset task_of draw d ids kw p n = Inr None \<Longrightarrow> ids = []"
  by (auto simp: spec_split_dataset_subset_def Let_def split: if_splits option.splits)

lemma set_bounded: "set (bounded task ids b pool drawn) \<subseteq> set drawn"
  by (cases b) (auto simp: bounded_def dest: in_set_takeD)

lemma spec_sampler_indices:
  assumes "spec_split_dataset_subset task_of draw d ids kw p n = Inr (Some r)"
  shows "ids \<noteq> [] \<and>
         (\<exists>idxs. r = Subset d idxs \<and>
            (\<forall>i\<in>set idxs. 0 \<le> i \<and> i < int (len d) \<and> task_of kw d i \<in> set ids))"
proof -
  let ?pool = "replay_pool task_of kw d ids"
  from assms obtain b where ids: "ids \<noteq> []" and
    r: "r = Subset d (bounded (task_of kw d) ids b ?pool
                        (filter (\<lambda>i. i \<in> set ?pool) (draw (kw_split_seed kw) b ?pool)))"
    by (auto simp: spec_split_dataset_subset_def Let_def split: option.splits if_splits)
  have "\<forall>i\<in>set ?pool. 0 \<le> i \<and> i < int (len d) \<and> task_of kw d i \<in> set ids"
    by (auto simp: replay_pool_def sample_indices_def)
  with r ids set_bounded [of "task_of kw d" ids b ?pool] show ?thesis by fastforce
qed

lemma py_range_empty: "py_range t = [] \<longleftrightarrow> t \<le> 0"
  by (auto simp: py_range_def)

lemma semi_supervised_stage_Inr:
  "semi_supervised_stage env cfg d w = (Inr d', w') \<Longrightarrow>
   (semi_supervised cfg = None \<and> d' = d \<and> w' = w) \<or>
   (\<exists>idxs st. targets d = Inr st \<and> d' = Subset d idxs)"
  by (auto simp: semi_supervised_stage_def split: option.splits sum.splits prod.splits)

lemma prepare_dataloaders_Inr:
  "prepare_dataloaders d va bs nw = Inr (train_loader, val_loader) \<Longrightarrow>
   dl_dataset train_loader = d \<and> dl_dataset val_loader = va"
  by (auto simp: prepare_dataloaders_def DataLoader_init_def split: if_splits sum.splits)

lemma prepare_data_stages:
  assumes "fst (prepare_data env cfg w) = Inr (train_loader, val_loader)"
  shows "\<exists>Ttrain Tval train_dataset val_dataset s w1 s' w2 d w3 d' w4.
           prepare_transforms (dataset cfg) = Inr (Ttrain, Tval) \<and>
           prepare_datasets env (dataset cfg) Ttrain Tval (data_dir cfg) (train_dir cfg)
             (val_dir cfg) (train_domain cfg) = Inr (train_dataset, val_dataset) \<and>
           task_split env cfg train_dataset w = (Inr s, w1) \<and>
           replay_stage env cfg train_dataset s w1 = (Inr s', w2) \<and>
           print_stage s' w2 = (Inr d, w3) \<and>
           semi_supervised_stage env cfg d w3 = (Inr d', w4) \<and>
           prepare_dataloaders d' val_dataset (batch_size cfg) (num_workers cfg) =
             Inr (train_loader, val_loader) \<and>
           prepare_data env cfg w = (Inr (train_loader, val_loader), w4)"
proof -
  from assms obtain w' where "prepare_data env cfg w = (Inr (train_loader, val_loader), w')"
    by (cases "prepare_data env cfg w") auto
  then show ?thesis
    by (auto simp: prepare_data_unfold and_then_Inr pure_step_def
             split: sum.splits prod.splits)
qed

lemma replay_stage_cases:
  assumes "replay cfg" and "training_task_idx cfg = IntIdx t"
    and "replay_stage env cfg train_dataset s w1 = (Inr s', w2)"
  shows "(split_dataset_subset env train_dataset (py_range t) (split_kwargs_of cfg)
            (replay_proportion cfg) (replay_memory_bank_size cfg) = Inr None \<and> s' = s) \<or>
         (\<exists>r primary.
            split_dataset_subset env train_dataset (py_range t) (split_kwargs_of cfg)
              (replay_proportion cfg) (replay_memory_bank_size cfg) = Inr (Some r) \<and>
            s = Some primary \<and> s' = Some (ConcatDataset [primary, r]))"
  using assms
  by (auto simp: replay_stage_def split: if_splits sum.splits option.splits)

text \<open>
  C5. With replay enabled, \<^verbatim>\<open>training_task_idx = t\<close> and the Replay Sampler of the
  specification, every call that \<^verbatim>\<open>prepare_data\<close> makes to the sampler passes the task
  indices \<^verbatim>\<open>[i for i in range(t)]\<close>, whose set is exactly \<open>{0, ..., t - 1}\<close>. In every
  run that returns loaders that call was made, on the full training dataset, and what
  it returned is what the training loader holds: with no prior task (\<open>t \<le> 0\<close>) the
  sampler returned \<^verbatim>\<open>None\<close> and the training set is the primary subset, possibly
  subsampled; with a prior task the training set is the primary subset followed by the
  replay subset, a subset of the training dataset whose every index belongs to a task
  in \<open>{0, ..., t - 1}\<close>, none to the current task \<open>t\<close> or to a later one.
\<close>

theorem replay_only_from_prior_tasks:
  assumes sampler: "split_dataset_subset env = spec_split_dataset_subset task_of draw"
    and "replay cfg" and "training_task_idx cfg = IntIdx t"
  shows "(\<forall>ids kw p n.
            Call_split_dataset_subset ids kw p n
              \<in> set (calls (snd (prepare_data env cfg (fresh g)))) \<longrightarrow>
            ids = py_range t \<and> set ids = {0..<t}) \<and>
         (\<forall>train_loader val_loader.
            fst (prepare_data env cfg (fresh g)) = Inr (train_loader, val_loader) \<longrightarrow>
            Call_split_dataset_subset (py_range t) (split_kwargs_of cfg)
                (replay_proportion cfg) (replay_memory_bank_size cfg)
              \<in> set (calls (snd (prepare_data env cfg (fresh g)))) \<and>
            (\<exists>Ttrain Tval train_dataset val_dataset primary.
               prepare_transforms (dataset cfg) = Inr (Ttrain, Tval) \<and>
               prepare_datasets env (dataset cfg) Ttrain Tval (data_dir cfg) (train_dir cfg)
                 (val_dir cfg) (train_domain cfg) = Inr (train_dataset, val_dataset) \<and>
               fst (task_split env cfg train_dataset (fresh g)) = Inr (Some primary) \<and>
               (case split_dataset_subset env train_dataset (py_range t) (split_kwargs_of cfg)
                       (replay_proportion cfg) (replay_memory_bank_size cfg) of
                  Inl e \<Rightarrow> False
                | Inr None \<Rightarrow>
                    t \<le> 0 \<and>
                    (dl_dataset train_loader = primary \<or>
                     (\<exists>idxs. dl_dataset train_loader = Subset primary idxs))
                | Inr (Some replay_dataset) \<Rightarrow>
                    0 < t \<and>
                    dl_dataset train_loader = ConcatDataset [primary, replay_dataset] \<and>
                    (\<exists>idxs. replay_dataset = Subset train_dataset idxs \<and>
                       (\<forall>i\<in>set idxs.
                          0 \<le> i \<and> i < int (len train_dataset) \<and>
                          0 \<le> task_of (split_kwargs_of cfg) train_dataset i \<and>
                          task_of (split_kwargs_of cfg) train_dataset i < t)))))"
proof (intro conjI allI impI)
  fix ids kw p n
  assume ev: "Call_split_dataset_subset ids kw p n
                \<in> set (calls (snd (prepare_data env cfg (fresh g))))"
  obtain r w' where run: "prepare_data env cfg (fresh g) = (r, w')"
    by (cases "prepare_data env cfg (fresh g)")
  from prepare_data_calls [OF run] ev run assms(3)
  show "ids = py_range t" by (auto simp: fresh_def)
  then show "set ids = {0..<t}" by (simp add: set_py_range)
next
  fix train_loader val_loader
  assume ok: "fst (prepare_data env cfg (fresh g)) = Inr (train_loader, val_loader)"
  then obtain w' where "prepare_data env cfg (fresh g) = (Inr (train_loader, val_loader), w')"
    by (cases "prepare_data env cfg (fresh g)") auto
  from prepare_data_replay_call [OF assms(2,3) this]
  show "Call_split_dataset_subset (py_range t) (split_kwargs_of cfg)
                (replay_proportion cfg) (replay_memory_bank_size cfg)
              \<in> set (calls (snd (prepare_data env cfg (fresh g))))"
    by (simp add: \<open>prepare_data env cfg (fresh g) = (Inr (train_loader, val_loader), w')\<close>)
next
  fix train_loader val_loader
  assume ok: "fst (prepare_data env cfg (fresh g)) = Inr (train_loader, val_loader)"
  let ?kw = "split_kwargs_of cfg"
  from prepare_data_stages [OF ok] obtain Tt Tv tr va s w1 s' w2 d w3 d' w4 where
    t: "prepare_transforms (dataset cfg) = Inr (Tt, Tv)" and
    p: "prepare_datasets env (dataset cfg) Tt Tv (data_dir cfg) (train_dir cfg)
          (val_dir cfg) (train_domain cfg) = Inr (tr, va)" and
    ts: "task_split env cfg tr (fresh g) = (Inr s, w1)" and
    rs: "replay_stage env cfg tr s w1 = (Inr s', w2)" and
    ps: "print_stage s' w2 = (Inr d, w3)" and
    ss: "semi_supervised_stage env cfg d w3 = (Inr d', w4)" and
    pl: "prepare_dataloaders d' va (batch_size cfg) (num_workers cfg) =
           Inr (train_loader, val_loader)"
    by blast
  from prepare_dataloaders_Inr [OF pl] have tl: "dl_dataset train_loader = d'" by simp
  from ps have s': "s' = Some d" by (auto simp: print_stage_def split: option.splits)
  let ?call = "split_dataset_subset env tr (py_range t) ?kw
                 (replay_proportion cfg) (replay_memory_bank_size cfg)"
  from replay_stage_cases [OF assms(2,3) rs]
  have "\<exists>primary. s = Some primary \<and>
          (case ?call of
             Inl e \<Rightarrow> False
           | Inr None \<Rightarrow>
               t \<le> 0 \<and>
               (dl_dataset train_loader = primary \<or>
                (\<exists>idxs. dl_dataset train_loader = Subset primary idxs))
           | Inr (Some replay_dataset) \<Rightarrow>
               0 < t \<and>
               dl_dataset train_loader = ConcatDataset [primary, replay_dataset] \<and>
               (\<exists>idxs. replay_dataset = Subset tr idxs \<and>
                  (\<forall>i\<in>set idxs.
                     0 \<le> i \<and> i < int (len tr) \<and>
                     0 \<le> task_of ?kw tr i \<and> task_of ?kw tr i < t)))"
  proof (elim disjE conjE exE)
    assume none: "?call = Inr None" and same: "s' = s"
    from none have "py_range t = []"
      by (simp add: sampler spec_sampler_None)
    then have "t \<le> 0" by (simp add: py_range_empty)
    moreover from semi_supervised_stage_Inr [OF ss] tl
    have "dl_dataset train_loader = d \<or> (\<exists>idxs. dl_dataset train_loader = Subset d idxs)"
      by auto
    ultimately show ?thesis using none same s' by auto
  next
    fix r primary
    assume some: "?call = Inr (Some r)" and s: "s = Some primary"
      and cat: "s' = Some (ConcatDataset [primary, r])"
    from cat s' have d: "d = ConcatDataset [primary, r]" by simp
    from semi_supervised_stage_Inr [OF ss] d have "d' = d" by auto
    with tl d have 1: "dl_dataset train_loader = ConcatDataset [primary, r]" by simp
    from some have "spec_split_dataset_subset task_of draw tr (py_range t) ?kw
                 (replay_proportion cfg) (replay_memory_bank_size cfg) = Inr (Some r)"
      by (simp add: sampler)
    from spec_sampler_indices [OF this]
    have 2: "0 < t" and
      3: "\<exists>idxs. r = Subset tr idxs \<and>
            (\<forall>i\<in>set idxs. 0 \<le> i \<and> i < int (len tr) \<and>
               0 \<le> task_of ?kw tr i \<and> task_of ?kw tr i < t)"
      by (auto simp: py_range_empty set_py_range)
    from 1 2 3 some s show ?thesis by simp
  qed
  then obtain primary where "s = Some primary" and c: "case ?call of
             Inl e \<Rightarrow> False
           | Inr None \<Rightarrow>
               t \<le> 0 \<and>
               (dl_dataset train_loader = primary \<or>
                (\<exists>idxs. dl_dataset train_loader = Subset primary idxs))
           | Inr (Some replay_dataset) \<Rightarrow>
               0 < t \<and>
               dl_dataset train_loader = ConcatDataset [primary, replay_dataset] \<and>
               (\<exists>idxs. replay_dataset = Subset tr idxs \<and>
                  (\<forall>i\<in>set idxs.
                     0 \<le> i \<and> i < int (len tr) \<and>
                     0 \<le> task_of ?kw tr i \<and> task_of ?kw tr i < t))"
    by blast
  with ts have "fst (task_split env cfg tr (fresh g)) = Inr (Some primary)" by simp
  with t p c
  show "\<exists>Ttrain Tval train_dataset val_dataset primary.
               prepare_transforms (dataset cfg) = Inr (Ttrain, Tval) \<and>
               prepare_datasets env (dataset cfg) Ttrain Tval (data_dir cfg) (train_dir cfg)
                 (val_dir cfg) (train_domain cfg) = Inr (train_dataset, val_dataset) \<and>
               fst (task_split env cfg train_dataset (fresh g)) = Inr (Some primary) \<and>
               (case split_dataset_subset env train_dataset (py_range t) (split_kwargs_of cfg)
                       (replay_proportion cfg) (replay_memory_bank_size cfg) of
                  Inl e \<Rightarrow> False
                | Inr None \<Rightarrow>
                    t \<le> 0 \<and>
                    (dl_dataset train_loader = primary \<or>
                     (\<exists>idxs. dl_dataset train_loader = Subset primary idxs))
                | Inr (Some replay_dataset) \<Rightarrow>
                    0 < t \<and>
                    dl_dataset train_loader = ConcatDataset [primary, replay_dataset] \<and>
                    (\<exists>idxs. replay_dataset = Subset train_dataset idxs \<and>
                       (\<forall>i\<in>set idxs.
                          0 \<le> i \<and> i < int (len train_dataset) \<and>
                          0 \<le> task_of (split_kwargs_of cfg) train_dataset i \<and>
                          task_of (split_kwargs_of cfg) train_dataset i < t)))"
    by blast
qed

text \<open>
  A call of \<^verbatim>\<open>prepare_data\<close> that names neither replay option hands the sampler the
  proportion \<^verbatim>\<open>0.\<close> and no absolute size, which is no budget.
\<close>

lemma default_replay_budget:
  "replay_budget (replay_proportion (default_config name))
     (replay_memory_bank_size (default_config name)) = None"
  by (simp add: replay_budget_def default_config_def)


lemma task_split_replay_off:
  "task_split env (cfg\<lparr>replay := False\<rparr>) = task_split env cfg"
  by (rule ext)+
     (auto simp: task_split_def split_kwargs_of_def Let_def split: task_idx.splits)

lemma semi_supervised_stage_replay_off:
  "semi_supervised_stage env (cfg\<lparr>replay := False\<rparr>) = semi_supervised_stage env cfg"
  by (rule ext)+ (auto simp: semi_supervised_stage_def split: option.splits sum.splits)

lemma replay_stage_off:
  "replay_stage env (cfg\<lparr>replay := False\<rparr>) d s = pure_step (Inr s)"
  by (rule ext) (simp add: replay_stage_def pure_step_def)

lemma and_then_pure: "and_then (pure_step (Inr x)) f = f x"
  by (rule ext) (simp add: and_then_def pure_step_def)

lemma replay_stage_first_task:
  assumes "split_dataset_subset env = spec_split_dataset_subset task_of draw"
    and "training_task_idx cfg = IntIdx 0" and "replay cfg"
    and "training_data_source cfg \<noteq> ''all_tasks''"
  shows "replay_stage env cfg d s w =
           (Inr s, log_event (Call_split_dataset_subset [] (split_kwargs_of cfg)
                                (replay_proportion cfg) (replay_memory_bank_size cfg)) w)"
  using assms by (simp add: replay_stage_def spec_sampler_empty)

text \<open>What follows the replay stage reads the generator of the world and not its log.\<close>

lemma after_replay_log:
  "and_then (print_stage s) (\<lambda>d.
     and_then (semi_supervised_stage env cfg d) (\<lambda>d.
     pure_step (prepare_dataloaders d va bs nw))) (log_event ev w) =
   (fst (and_then (print_stage s) (\<lambda>d.
           and_then (semi_supervised_stage env cfg d) (\<lambda>d.
           pure_step (prepare_dataloaders d va bs nw))) w),
    (snd (and_then (print_stage s) (\<lambda>d.
            and_then (semi_supervised_stage env cfg d) (\<lambda>d.
            pure_step (prepare_dataloaders d va bs nw))) w))
      \<lparr> calls := calls w @ ev #
          drop (length (calls w))
            (calls (snd (and_then (print_stage s) (\<lambda>d.
               and_then (semi_supervised_stage env cfg d) (\<lambda>d.
               pure_step (prepare_dataloaders d va bs nw))) w))) \<rparr>)"
  by (auto simp: and_then_def print_stage_def semi_supervised_stage_def pure_step_def
        log_event_def split: option.splits sum.splits prod.splits)

lemma and_then_step: "m w = (Inr x, w') \<Longrightarrow> and_then m f w = f x w'"
  by (simp add: and_then_def)

lemma first_task_replay_off:
  assumes "split_dataset_subset env = spec_split_dataset_subset task_of draw"
    and "training_task_idx cfg = IntIdx 0" and "replay cfg"
    and "training_data_source cfg \<noteq> ''all_tasks''"
  shows "fst (prepare_data env cfg w) = fst (prepare_data env (cfg\<lparr>replay := False\<rparr>) w) \<and>
         global_rng (snd (prepare_data env cfg w)) =
           global_rng (snd (prepare_data env (cfg\<lparr>replay := False\<rparr>) w))"
proof (cases "prepare_transforms (dataset cfg)")
  case (Inl e)
  then show ?thesis by (simp add: prepare_data_unfold)
next
  case (Inr T)
  obtain Tt Tv where T: "T = (Tt, Tv)" by (cases T)
  show ?thesis
  proof (cases "prepare_datasets env (dataset cfg) Tt Tv (data_dir cfg) (train_dir cfg)
                  (val_dir cfg) (train_domain cfg)")
    case (Inl e)
    with Inr T show ?thesis by (simp add: prepare_data_unfold)
  next
    case ds: (Inr D)
    obtain tr va where D: "D = (tr, va)" by (cases D)
    obtain r w1 where ts: "task_split env cfg tr w = (r, w1)"
      by (cases "task_split env cfg tr w")
    show ?thesis
    proof (cases r)
      case (Inl e)
      with Inr T ds D ts show ?thesis
        by (simp add: prepare_data_unfold and_then_def task_split_replay_off)
    next
      case s: (Inr s)
      have a: "prepare_data env cfg w =
                 and_then (print_stage s) (\<lambda>d.
                   and_then (semi_supervised_stage env cfg d) (\<lambda>d.
                   pure_step (prepare_dataloaders d va (batch_size cfg) (num_workers cfg))))
                   (log_event (Call_split_dataset_subset [] (split_kwargs_of cfg)
                                (replay_proportion cfg) (replay_memory_bank_size cfg)) w1)"
        using Inr T ds D ts s
        by (simp add: prepare_data_unfold and_then_step [where m = "task_split env cfg tr"]
              and_then_step [OF replay_stage_first_task [OF assms]])
      have b: "prepare_data env (cfg\<lparr>replay := False\<rparr>) w =
                 and_then (print_stage s) (\<lambda>d.
                   and_then (semi_supervised_stage env cfg d) (\<lambda>d.
                   pure_step (prepare_dataloaders d va (batch_size cfg) (num_workers cfg))))
                   w1"
        using Inr T ds D ts s
        by (simp add: prepare_data_unfold task_split_replay_off
              and_then_step [where m = "task_split env cfg tr"]
              replay_stage_off and_then_pure semi_supervised_stage_replay_off)
      show ?thesis by (simp add: a b after_replay_log)
    qed
  qed
qed

text \<open>
  C6, as amended. For every configuration with \<^verbatim>\<open>training_task_idx = 0\<close> and
  \<^verbatim>\<open>replay = True\<close> whose \<^verbatim>\<open>training_data_source\<close> is \<^verbatim>\<open>"current_task"\<close> or
  \<^verbatim>\<open>"seen_tasks"\<close>, the Replay Sampler of the specification is called with no prior
  task and returns \<^verbatim>\<open>None\<close>, \<^verbatim>\<open>prepare_data\<close> skips the concatenation, and the run
  returns what the same call with \<^verbatim>\<open>replay = False\<close> returns, loaders or error. With
  no \<^verbatim>\<open>semi_supervised\<close> fraction, on a known dataset whose task split for task 0
  succeeds, the loaders are built over the task-0 subset that the partitioner returned:
  whenever they are returned, the dataset of the training loader is exactly that
  subset, with the same length.
\<close>

theorem first_task_replay_noop:
  assumes sampler: "split_dataset_subset env = spec_split_dataset_subset task_of draw"
    and "training_task_idx cfg = IntIdx 0" and "replay cfg"
    and "training_data_source cfg = ''current_task'' \<or>
         training_data_source cfg = ''seen_tasks''"
    and "idx = (if training_data_source cfg = ''current_task'' then IntIdx 0
                else ListIdx [0])"
  shows "(\<forall>d. split_dataset_subset env d (py_range 0) (split_kwargs_of cfg)
               (replay_proportion cfg) (replay_memory_bank_size cfg) = Inr None) \<and>
         fst (prepare_data env cfg w) = fst (prepare_data env (cfg\<lparr>replay := False\<rparr>) w) \<and>
         (semi_supervised cfg = None \<longrightarrow>
            (\<forall>Ttrain Tval train_dataset val_dataset task0 other.
               prepare_transforms (dataset cfg) = Inr (Ttrain, Tval) \<longrightarrow>
               prepare_datasets env (dataset cfg) Ttrain Tval (data_dir cfg) (train_dir cfg)
                 (val_dir cfg) (train_domain cfg) = Inr (train_dataset, val_dataset) \<longrightarrow>
               split_dataset env train_dataset idx (split_kwargs_of cfg) =
                 Inr (task0, other) \<longrightarrow>
                 fst (prepare_data env cfg w) =
                   prepare_dataloaders task0 val_dataset (batch_size cfg) (num_workers cfg) \<and>
                 calls (snd (prepare_data env cfg w)) =
                   calls w @
                   [Call_split_dataset idx (split_kwargs_of cfg),
                    Call_split_dataset_subset [] (split_kwargs_of cfg)
                      (replay_proportion cfg) (replay_memory_bank_size cfg),
                    Print (len task0) (len task0)] \<and>
                 (\<forall>train_loader val_loader.
                    fst (prepare_data env cfg w) = Inr (train_loader, val_loader) \<longrightarrow>
                    dl_dataset train_loader = task0 \<and>
                    len (dl_dataset train_loader) = len task0)))"
proof -
  have src: "training_data_source cfg \<noteq> ''all_tasks''"
    using assms(4) by auto
  have none: "split_dataset_subset env d (py_range 0) (split_kwargs_of cfg)
               (replay_proportion cfg) (replay_memory_bank_size cfg) = Inr None" for d
    by (simp add: sampler spec_sampler_empty)
  note off = first_task_replay_off [OF sampler assms(2,3) src, of w]
  have main: "fst (prepare_data env cfg w) =
                   prepare_dataloaders task0 val_dataset (batch_size cfg) (num_workers cfg) \<and>
                 calls (snd (prepare_data env cfg w)) =
                   calls w @
                   [Call_split_dataset idx (split_kwargs_of cfg),
                    Call_split_dataset_subset [] (split_kwargs_of cfg)
                      (replay_proportion cfg) (replay_memory_bank_size cfg),
                    Print (len task0) (len task0)] \<and>
                 (\<forall>train_loader val_loader.
                    fst (prepare_data env cfg w) = Inr (train_loader, val_loader) \<longrightarrow>
                    dl_dataset train_loader = task0 \<and>
                    len (dl_dataset train_loader) = len task0)"
    if semi: "semi_supervised cfg = None"
      and t: "prepare_transforms (dataset cfg) = Inr (Ttrain, Tval)"
      and p: "prepare_datasets env (dataset cfg) Ttrain Tval (data_dir cfg) (train_dir cfg)
                 (val_dir cfg) (train_domain cfg) = Inr (train_dataset, val_dataset)"
      and sp: "split_dataset env train_dataset idx (split_kwargs_of cfg) = Inr (task0, other)"
    for Ttrain Tval train_dataset val_dataset task0 other
  proof -
    have ts: "task_split env cfg train_dataset w =
                (Inr (Some task0), log_event (Call_split_dataset idx (split_kwargs_of cfg)) w)"
      using assms(2,4,5) sp by (auto simp: task_split_def)
    have rs: "replay_stage env cfg train_dataset (Some task0) w1 =
              (Inr (Some task0),
               log_event (Call_split_dataset_subset [] (split_kwargs_of cfg)
                            (replay_proportion cfg) (replay_memory_bank_size cfg)) w1)" for w1
      by (rule replay_stage_first_task [OF sampler assms(2,3) src])
    have "prepare_data env cfg w =
        and_then (print_stage (Some task0)) (\<lambda>d.
                 and_then (semi_supervised_stage env cfg d) (\<lambda>d.
                 pure_step (prepare_dataloaders d val_dataset
                                   (batch_size cfg) (num_workers cfg))))
           (log_event (Call_split_dataset_subset [] (split_kwargs_of cfg)
                                (replay_proportion cfg) (replay_memory_bank_size cfg))
                (log_event (Call_split_dataset idx (split_kwargs_of cfg)) w))"
      using t p
      by (simp add: prepare_data_unfold
            and_then_step [where m = "task_split env cfg train_dataset", OF ts]
            and_then_step [where m = "replay_stage env cfg train_dataset (Some task0)", OF rs])
    also have "\<dots> =
        (prepare_dataloaders task0 val_dataset (batch_size cfg) (num_workers cfg),
         log_event (Print (len task0) (len task0))
           (log_event (Call_split_dataset_subset [] (split_kwargs_of cfg)
                              (replay_proportion cfg) (replay_memory_bank_size cfg))
              (log_event (Call_split_dataset idx (split_kwargs_of cfg)) w)))"
      using semi
      by (cases "prepare_dataloaders task0 val_dataset (batch_size cfg) (num_workers cfg)")
         (simp_all add: and_then_def print_stage_def semi_supervised_stage_def pure_step_def)
    finally have run: "prepare_data env cfg w =
        (prepare_dataloaders task0 val_dataset (batch_size cfg) (num_workers cfg),
         log_event (Print (len task0) (len task0))
           (log_event (Call_split_dataset_subset [] (split_kwargs_of cfg)
                              (replay_proportion cfg) (replay_memory_bank_size cfg))
              (log_event (Call_split_dataset idx (split_kwargs_of cfg)) w)))" .
    have 1: "fst (prepare_data env cfg w) =
               prepare_dataloaders task0 val_dataset (batch_size cfg) (num_workers cfg)"
      by (simp only: run fst_conv)
    have 2: "calls (snd (prepare_data env cfg w)) =
               calls w @
               [Call_split_dataset idx (split_kwargs_of cfg),
                Call_split_dataset_subset [] (split_kwargs_of cfg)
                  (replay_proportion cfg) (replay_memory_bank_size cfg),
                Print (len task0) (len task0)]"
      by (simp add: run log_event_def)
    have 3: "dl_dataset train_loader = task0 \<and> len (dl_dataset train_loader) = len task0"
      if "fst (prepare_data env cfg w) = Inr (train_loader, val_loader)"
      for train_loader val_loader
    proof -
      from that 1 have "prepare_dataloaders task0 val_dataset (batch_size cfg)
                          (num_workers cfg) = Inr (train_loader, val_loader)"
        by simp
      from prepare_dataloaders_Inr [OF this] show ?thesis by simp
    qed
    from 1 2 3 show ?thesis by blast
  qed
  show ?thesis
  proof (intro conjI allI impI)
    fix d show "split_dataset_subset env d (py_range 0) (split_kwargs_of cfg)
               (replay_proportion cfg) (replay_memory_bank_size cfg) = Inr None"
      by (rule none)
  next
    show "fst (prepare_data env cfg w) = fst (prepare_data env (cfg\<lparr>replay := False\<rparr>) w)"
      using off by simp
  next
    fix Ttrain Tval train_dataset val_dataset task0 other
    assume a: "semi_supervised cfg = None"
      "prepare_transforms (dataset cfg) = Inr (Ttrain, Tval)"
      "prepare_datasets env (dataset cfg) Ttrain Tval (data_dir cfg) (train_dir cfg)
                 (val_dir cfg) (train_domain cfg) = Inr (train_dataset, val_dataset)"
      "split_dataset env train_dataset idx (split_kwargs_of cfg) = Inr (task0, other)"
    note m = main [OF a]
    from m show "fst (prepare_data env cfg w) =
                   prepare_dataloaders task0 val_dataset (batch_size cfg) (num_workers cfg)"
      by (rule conjunct1)
    from m show "calls (snd (prepare_data env cfg w)) =
                   calls w @
                   [Call_split_dataset idx (split_kwargs_of cfg),
                    Call_split_dataset_subset [] (split_kwargs_of cfg)
                      (replay_proportion cfg) (replay_memory_bank_size cfg),
                    Print (len task0) (len task0)]"
      by (rule conjunct1 [OF conjunct2])
    fix train_loader val_loader
    assume r: "fst (prepare_data env cfg w) = Inr (train_loader, val_loader)"
    from m r show "dl_dataset train_loader = task0" by blast
    from m r show "len (dl_dataset train_loader) = len task0" by blast
  qed
qed

section \<open>The properties on the concrete run\<close>



theorem validation_loader_frame_witness:
  "fst (prepare_data example_env cfg_first_task (fresh 0)) =
     Inr (example_loaders example_task0) \<and>
   fst (prepare_data example_env example_cfg (fresh 1)) =
     Inr (example_loaders (ConcatDataset [example_task1, Subset example_train [3, 2]])) \<and>
   snd (example_loaders (ConcatDataset [example_task1, Subset example_train [3, 2]])) =
   snd (example_loaders example_task0)"
proof -
  have r1: "fst (prepare_data example_env cfg_first_task (fresh 0)) =
     Inr (fst (example_loaders example_task0), snd (example_loaders example_task0))"
    by code_simp
  have r2: "fst (prepare_data example_env example_cfg (fresh 1)) =
     Inr (fst (example_loaders (ConcatDataset [example_task1, Subset example_train [3, 2]])),
          snd (example_loaders (ConcatDataset [example_task1, Subset example_train [3, 2]])))"
    by code_simp
  have e: "dataset example_cfg = dataset cfg_first_task"
      "data_dir example_cfg = data_dir cfg_first_task"
      "val_dir example_cfg = val_dir cfg_first_task"
      "batch_size example_cfg = batch_size cfg_first_task"
      "num_workers example_cfg = num_workers cfg_first_task"
    by (simp_all add: cfg_first_task_def)
  have r1': "fst (prepare_data example_env cfg_first_task (fresh 0)) =
     Inr (example_loaders example_task0)"
    by code_simp
  have r2': "fst (prepare_data example_env example_cfg (fresh 1)) =
     Inr (example_loaders (ConcatDataset [example_task1, Subset example_train [3, 2]]))"
    by code_simp
  from validation_loader_frame [OF r1 r2 e]
  have "snd (example_loaders (ConcatDataset [example_task1, Subset example_train [3, 2]])) =
        snd (example_loaders example_task0)"
    by (rule conjunct1)
  with r1' r2' show ?thesis by blast
qed

lemma example_env_sampler:
  "split_dataset_subset example_env = spec_split_dataset_subset example_task_of example_draw"
  by (simp add: example_env_def)

theorem replay_only_from_prior_tasks_witness:
  "split_dataset_subset example_env = spec_split_dataset_subset example_task_of example_draw \<and>
   replay example_cfg \<and> training_task_idx example_cfg = IntIdx 1 \<and>
   fst (prepare_data example_env example_cfg (fresh 0)) =
     Inr (example_loaders (ConcatDataset [example_task1, Subset example_train [3, 2]])) \<and>
   Call_split_dataset_subset [0] (split_kwargs_of example_cfg) (Some 0) (Some 2)
     \<in> set (calls (snd (prepare_data example_env example_cfg (fresh 0)))) \<and>
   set [0] = {0..<1::int} \<and>
   split_dataset_subset example_env example_train (py_range 1) (split_kwargs_of example_cfg)
     (replay_proportion example_cfg) (replay_memory_bank_size example_cfg) =
     Inr (Some (Subset example_train [3, 2])) \<and>
   dl_dataset (fst (example_loaders (ConcatDataset [example_task1, Subset example_train [3, 2]])))
     = ConcatDataset [example_task1, Subset example_train [3, 2]] \<and>
   0 \<le> example_task_of (split_kwargs_of example_cfg) example_train 3 \<and>
   example_task_of (split_kwargs_of example_cfg) example_train 3 < 1 \<and>
   0 \<le> example_task_of (split_kwargs_of example_cfg) example_train 2 \<and>
   example_task_of (split_kwargs_of example_cfg) example_train 2 < 1"
proof -
  let ?tl = "fst (example_loaders (ConcatDataset [example_task1, Subset example_train [3, 2]]))"
  let ?vl = "snd (example_loaders (ConcatDataset [example_task1, Subset example_train [3, 2]]))"
  let ?kw = "split_kwargs_of example_cfg"
  have h1: "replay example_cfg" by (simp add: example_cfg_def default_config_def)
  have h2: "training_task_idx example_cfg = IntIdx 1"
    by (simp add: example_cfg_def default_config_def)
  note inst = replay_only_from_prior_tasks [OF example_env_sampler h1 h2, of 0]
  have run: "fst (prepare_data example_env example_cfg (fresh 0)) = Inr (?tl, ?vl)"
    by code_simp
  have ev: "Call_split_dataset_subset [0] ?kw (Some 0) (Some 2)
     \<in> set (calls (snd (prepare_data example_env example_cfg (fresh 0))))"
    by code_simp
  with inst have s: "set [0] = {0..<1::int}" by blast
  have t: "prepare_transforms (dataset example_cfg) =
             Inr (T_train cifar_pipeline, T_val cifar_pipeline)"
    by code_simp
  have d: "prepare_datasets example_env (dataset example_cfg) (T_train cifar_pipeline)
             (T_val cifar_pipeline) (data_dir example_cfg) (train_dir example_cfg)
             (val_dir example_cfg) (train_domain example_cfg) =
           Inr (example_train, example_val)"
    by code_simp
  have r: "split_dataset_subset example_env example_train (py_range 1) ?kw
     (replay_proportion example_cfg) (replay_memory_bank_size example_cfg) =
     Inr (Some (Subset example_train [3, 2]))"
    by code_simp
  from inst run obtain Tt Tv tr va primary where
    t': "prepare_transforms (dataset example_cfg) = Inr (Tt, Tv)" and
    d': "prepare_datasets example_env (dataset example_cfg) Tt Tv (data_dir example_cfg)
           (train_dir example_cfg) (val_dir example_cfg) (train_domain example_cfg) =
         Inr (tr, va)" and
    c: "case split_dataset_subset example_env tr (py_range 1) ?kw
               (replay_proportion example_cfg) (replay_memory_bank_size example_cfg) of
          Inl e \<Rightarrow> False
        | Inr None \<Rightarrow>
            (1::int) \<le> 0 \<and>
            (dl_dataset ?tl = primary \<or> (\<exists>idxs. dl_dataset ?tl = Subset primary idxs))
        | Inr (Some replay_dataset) \<Rightarrow>
            (0::int) < 1 \<and>
            dl_dataset ?tl = ConcatDataset [primary, replay_dataset] \<and>
            (\<exists>idxs. replay_dataset = Subset tr idxs \<and>
               (\<forall>i\<in>set idxs.
                  0 \<le> i \<and> i < int (len tr) \<and>
                  0 \<le> example_task_of ?kw tr i \<and> example_task_of ?kw tr i < 1))"
    by blast
  from t t' d d' have tr: "tr = example_train" by simp
  from c r tr have
    "dl_dataset ?tl = ConcatDataset [primary, Subset example_train [3, 2]]"
    "\<forall>i\<in>set [3, 2]. 0 \<le> example_task_of ?kw example_train i \<and>
                      example_task_of ?kw example_train i < 1"
    by auto
  moreover have "dl_dataset ?tl = ConcatDataset [example_task1, Subset example_train [3, 2]]"
    by (simp add: example_loaders_def)
  ultimately show ?thesis using example_env_sampler h1 h2 run ev s r by simp
qed



theorem first_task_replay_noop_witness:
  "split_dataset_subset example_env = spec_split_dataset_subset example_task_of example_draw \<and>
   training_task_idx cfg_first_task = IntIdx 0 \<and> replay cfg_first_task \<and>
   training_data_source cfg_first_task = ''current_task'' \<and>
   semi_supervised cfg_first_task = None \<and>
   split_dataset example_env example_train (IntIdx 0) (split_kwargs_of cfg_first_task) =
     Inr (example_task0, example_task1) \<and>
   split_dataset_subset example_env example_train (py_range 0) (split_kwargs_of cfg_first_task)
     (replay_proportion cfg_first_task) (replay_memory_bank_size cfg_first_task) = Inr None \<and>
   fst (prepare_data example_env cfg_first_task (fresh 0)) =
     fst (prepare_data example_env (cfg_first_task\<lparr>replay := False\<rparr>) (fresh 0)) \<and>
   fst (prepare_data example_env cfg_first_task (fresh 0)) =
     Inr (example_loaders example_task0) \<and>
   dl_dataset (fst (example_loaders example_task0)) = example_task0 \<and>
   len (dl_dataset (fst (example_loaders example_task0))) = len example_task0"
proof -
  have h: "training_task_idx cfg_first_task = IntIdx 0" "replay cfg_first_task"
      "training_data_source cfg_first_task = ''current_task''"
      "semi_supervised cfg_first_task = None"
    by (simp_all add: cfg_first_task_def example_cfg_def default_config_def)
  have t: "prepare_transforms (dataset cfg_first_task) =
             Inr (T_train cifar_pipeline, T_val cifar_pipeline)"
    by code_simp
  have d: "prepare_datasets example_env (dataset cfg_first_task) (T_train cifar_pipeline)
             (T_val cifar_pipeline) (data_dir cfg_first_task) (train_dir cfg_first_task)
             (val_dir cfg_first_task) (train_domain cfg_first_task) =
           Inr (example_train, example_val)"
    by code_simp
  have i: "IntIdx 0 = (if training_data_source cfg_first_task = ''current_task''
                        then IntIdx 0 else ListIdx [0])"
    by (simp add: h)
  have sp: "split_dataset example_env example_train (IntIdx 0) (split_kwargs_of cfg_first_task)
              = Inr (example_task0, example_task1)"
    by code_simp
  have run: "fst (prepare_data example_env cfg_first_task (fresh 0)) =
               Inr (fst (example_loaders example_task0), snd (example_loaders example_task0))"
    by code_simp
  note inst = first_task_replay_noop [OF example_env_sampler h(1) h(2) disjI1 [OF h(3)] i,
      of "fresh 0"]
  from inst have 1: "split_dataset_subset example_env example_train (py_range 0)
     (split_kwargs_of cfg_first_task)
     (replay_proportion cfg_first_task) (replay_memory_bank_size cfg_first_task) = Inr None"
    by blast
  from inst have 2: "fst (prepare_data example_env cfg_first_task (fresh 0)) =
     fst (prepare_data example_env (cfg_first_task\<lparr>replay := False\<rparr>) (fresh 0))"
    by blast
  from inst h(4) t d sp run
  have 3: "dl_dataset (fst (example_loaders example_task0)) = example_task0 \<and>
     len (dl_dataset (fst (example_loaders example_task0))) = len example_task0"
    by blast
  from run have 4: "fst (prepare_data example_env cfg_first_task (fresh 0)) =
     Inr (example_loaders example_task0)"
    by simp
  from example_env_sampler h sp 1 2 3 4 show ?thesis by blast
qed

text \<open>
  C6 as stated fails in two ways, each with \<^verbatim>\<open>training_task_idx = 0\<close> and
  \<^verbatim>\<open>replay = True\<close>: under \<^verbatim>\<open>"all_tasks"\<close> the call raises, and with a
  \<^verbatim>\<open>semi_supervised\<close> fraction the training set is a strict subset of the task-0
  subset.
\<close>

theorem first_task_replay_noop_counterexample:
  "training_task_idx cfg_all_tasks_replay = IntIdx 0 \<and> replay cfg_all_tasks_replay \<and>
   fst (prepare_data example_env cfg_all_tasks_replay (fresh 0)) =
     Inl (Exception replay_not_supported) \<and>
   training_task_idx cfg_first_task_semi_supervised = IntIdx 0 \<and>
   replay cfg_first_task_semi_supervised \<and>
   split_dataset example_env example_train (training_task_idx cfg_first_task_semi_supervised)
       (split_kwargs_of cfg_first_task_semi_supervised) = Inr (example_task0, example_task1) \<and>
   fst (prepare_data example_env cfg_first_task_semi_supervised (fresh 0)) =
     Inr (example_loaders (Subset example_task0 [1, 3])) \<and>
   Subset example_task0 [1, 3] \<noteq> example_task0 \<and>
   len (Subset example_task0 [1, 3]) = 2 \<and> len example_task0 = 4"
  by code_simp

theorem seeded_runs_agree_witness:
  "training_split_seed cfg_first_task_semi_supervised = Some 5 \<and>
   fst (prepare_data example_env cfg_first_task_semi_supervised (fresh 0)) =
     fst (prepare_data example_env cfg_first_task_semi_supervised (fresh 1)) \<and>
   global_rng (snd (prepare_data example_env cfg_first_task_semi_supervised (fresh 0))) = 0"
proof -
  have h: "training_split_seed cfg_first_task_semi_supervised = Some 5"
    by (simp add: cfg_first_task_semi_supervised_def cfg_first_task_def example_cfg_def
          default_config_def)
  from seeded_runs_agree [OF h, of example_env 0 1] h show ?thesis by blast
qed

text \<open>
  C8 as stated fails when no seed is declared: with \<^verbatim>\<open>training_split_seed = None\<close>
  the stratified split draws from the process-global generator, and two runs on the
  same inputs select different training samples.
\<close>

theorem seeded_runs_agree_counterexample:
  "training_split_seed cfg_unseeded = None \<and>
   fst (prepare_data example_env cfg_unseeded (fresh 0)) =
     Inr (example_loaders (Subset example_train [0, 2, 4, 6])) \<and>
   fst (prepare_data example_env cfg_unseeded (fresh 1)) =
     Inr (example_loaders (Subset example_train [1, 3, 5, 7])) \<and>
   fst (prepare_data example_env cfg_unseeded (fresh 0)) \<noteq>
   fst (prepare_data example_env cfg_unseeded (fresh 1))"
  by code_simp

section \<open>Semi-supervised subsampling after replay\<close>

lemma concat_has_no_targets:
  assumes "semi_supervised cfg = Some train_size"
  shows "semi_supervised_stage env cfg (ConcatDataset ds) w = (Inl AttributeError, w)"
  using assms by (simp add: semi_supervised_stage_def)

lemma replay_stage_concat:
  assumes "replay cfg" and "training_data_source cfg \<noteq> ''all_tasks''"
    and "training_task_idx cfg = IntIdx t"
    and "split_dataset_subset env train_dataset (py_range t) (split_kwargs_of cfg)
           (replay_proportion cfg) (replay_memory_bank_size cfg) = Inr (Some replay_dataset)"
  shows "fst (replay_stage env cfg train_dataset (Some d) w) =
           Inr (Some (ConcatDataset [d, replay_dataset]))"
  using assms by (simp add: replay_stage_def)

lemma replay_then_semi_supervised_raises:
  assumes "replay cfg" and "training_data_source cfg \<noteq> ''all_tasks''"
    and "training_task_idx cfg = IntIdx t"
    and "semi_supervised cfg = Some train_size"
    and "prepare_transforms (dataset cfg) = Inr (Ttrain, Tval)"
    and "prepare_datasets env (dataset cfg) Ttrain Tval (data_dir cfg) (train_dir cfg)
           (val_dir cfg) (train_domain cfg) = Inr (train_dataset, val_dataset)"
    and "task_split env cfg train_dataset w = (Inr (Some d), w1)"
    and "split_dataset_subset env train_dataset (py_range t) (split_kwargs_of cfg)
           (replay_proportion cfg) (replay_memory_bank_size cfg) = Inr (Some replay_dataset)"
  shows "fst (prepare_data env cfg w) = Inl AttributeError"
  using assms
  by (simp add: prepare_data_unfold and_then_def replay_stage_def print_stage_def
        concat_has_no_targets)

text \<open>
  C2. The stages run in the order task split, replay concatenation, semi-supervised
  subsampling, and the replay subset is appended after the primary subset. But the
  concatenation is a \<^verbatim>\<open>ConcatDataset\<close>, which has no attribute \<^verbatim>\<open>targets\<close>: with
  replay enabled, a prior task to replay and a \<^verbatim>\<open>semi_supervised\<close> fraction, reading
  \<^verbatim>\<open>split_train_dataset.targets\<close> raises \<open>AttributeError\<close> before the stratified
  split is called, so the subsampling of the replay-augmented subset does not succeed.
  The run below is task 1 of the example with a memory bank of two samples and
  \<^verbatim>\<open>semi_supervised = 0.5\<close>.
\<close>

theorem semi_supervised_after_replay_raises:
  "replay cfg_replay_semi_supervised \<and>
   semi_supervised cfg_replay_semi_supervised = Some (1 / 2) \<and>
   training_data_source cfg_replay_semi_supervised = ''current_task'' \<and>
   training_task_idx cfg_replay_semi_supervised = IntIdx 1 \<and>
   split_dataset_subset example_env example_train [0]
       (split_kwargs_of cfg_replay_semi_supervised) (Some 0) (Some 2) =
     Inr (Some (Subset example_train [3, 2])) \<and>
   targets (ConcatDataset [example_task1, Subset example_train [3, 2]]) = Inl AttributeError \<and>
   prepare_data example_env cfg_replay_semi_supervised (fresh 0) =
     (Inl AttributeError,
      \<lparr> calls = [Call_split_dataset (IntIdx 1) (split_kwargs_of cfg_replay_semi_supervised),
                 Call_split_dataset_subset [0] (split_kwargs_of cfg_replay_semi_supervised)
                   (Some 0) (Some 2),
                 Print 6 6],
        global_rng = 0 \<rparr>)"
  by code_simp

end
